theory Spec2Isabelle
  imports Main "HOL-Library.Multiset"
begin

section \<open>Go strings and the library functions the differ uses\<close>

text \<open>
  A Go string is a sequence of bytes; it is modelled as \<^typ>\<open>string\<close>.
  \<open>fmt.Sprintf("\"%s\"", s)\<close> is \<open>quoted s\<close>, and \<open>nl\<close> is the line feed that ends
  every emitted statement.
\<close>

definition dq :: char where
  "dq = CHR 0x22"

definition nl :: string where
  "nl = [CHR 0x0A]"

definition tab :: string where
  "tab = [CHR 0x09]"

definition quoted :: "string \<Rightarrow> string" where
  "quoted s = dq # s @ [dq]"

text \<open>\<open>strings.Join(elems, sep)\<close>.\<close>

fun Join :: "string list \<Rightarrow> string \<Rightarrow> string" where
  "Join [] sep = []"
| "Join [x] sep = x"
| "Join (x # y # ys) sep = x @ sep @ Join (y # ys) sep"

text \<open>
  \<open>strings.TrimSpace\<close> removes every leading and trailing white-space code point, as
  \<open>unicode.IsSpace\<close> defines it: the six ASCII characters of \<open>asciiSpace\<close>, and the
  code points U+0085, U+00A0, U+1680, U+2000 to U+200A, U+2028, U+2029, U+202F, U+205F
  and U+3000, which occur in a Go string as their UTF-8 encodings.
\<close>

definition asciiSpace :: "char \<Rightarrow> bool" where
  "asciiSpace c = (c \<in> {CHR 0x09, CHR 0x0A, CHR 0x0B, CHR 0x0C, CHR 0x0D, CHR 0x20})"

definition unicodeSpaces :: "string list" where
  "unicodeSpaces =
     [ [CHR 0xC2, CHR 0x85], [CHR 0xC2, CHR 0xA0], [CHR 0xE1, CHR 0x9A, CHR 0x80],
      [CHR 0xE2, CHR 0x80, CHR 0x80], [CHR 0xE2, CHR 0x80, CHR 0x81],
      [CHR 0xE2, CHR 0x80, CHR 0x82], [CHR 0xE2, CHR 0x80, CHR 0x83],
      [CHR 0xE2, CHR 0x80, CHR 0x84], [CHR 0xE2, CHR 0x80, CHR 0x85],
      [CHR 0xE2, CHR 0x80, CHR 0x86], [CHR 0xE2, CHR 0x80, CHR 0x87],
      [CHR 0xE2, CHR 0x80, CHR 0x88], [CHR 0xE2, CHR 0x80, CHR 0x89],
      [CHR 0xE2, CHR 0x80, CHR 0x8A], [CHR 0xE2, CHR 0x80, CHR 0xA8],
      [CHR 0xE2, CHR 0x80, CHR 0xA9], [CHR 0xE2, CHR 0x80, CHR 0xAF],
      [CHR 0xE2, CHR 0x81, CHR 0x9F], [CHR 0xE3, CHR 0x80, CHR 0x80] ]"

text \<open>The number of bytes of the white-space code point a string starts with, 0 if none.\<close>

definition leadingSpace :: "string list \<Rightarrow> string \<Rightarrow> nat" where
  "leadingSpace encs s =
     (case s of
        [] \<Rightarrow> 0
      | c # _ \<Rightarrow>
          if asciiSpace c then 1
          else (case find (\<lambda>e. take (length e) s = e) encs of
                  Some e \<Rightarrow> length e
                | None \<Rightarrow> 0))"

function trimLeading :: "string list \<Rightarrow> string \<Rightarrow> string" where
  "trimLeading encs s =
     (if leadingSpace encs s = 0 \<or> s = [] then s
      else trimLeading encs (drop (leadingSpace encs s) s))"
  by pat_completeness auto
termination
  by (relation "measure (\<lambda>(encs, s). length s)") auto

declare trimLeading.simps [simp del]

definition TrimLeft :: "string \<Rightarrow> string" where
  "TrimLeft s = trimLeading unicodeSpaces s"

text \<open>Trailing white space is leading white space of the reversed string, each encoding reversed.\<close>

definition TrimRight :: "string \<Rightarrow> string" where
  "TrimRight s = rev (trimLeading (map rev unicodeSpaces) (rev s))"

definition TrimSpace :: "string \<Rightarrow> string" where
  "TrimSpace s = TrimRight (TrimLeft s)"

text \<open>
  A Go \<open>map[string]string\<close> is an association list with distinct keys; \<open>m[k] = v\<close> is
  \<open>map_assign\<close> and \<open>m[k]\<close> is \<^const>\<open>map_of\<close>. The language leaves the order in which
  \<open>range\<close> visits a map unspecified and the runtime randomises it, so every traversal takes
  a seed that stands for the runtime's choice: \<open>go_range seed m\<close> is the order of the visit.
  Every seed gives a permutation of the entries and every permutation comes from a seed.
\<close>

type_synonym gomap = "(string \<times> string) list"

fun map_assign :: "gomap \<Rightarrow> string \<Rightarrow> string \<Rightarrow> gomap" where
  "map_assign [] k v = [(k, v)]"
| "map_assign (p # ps) k v = (if fst p = k then (k, v) # ps else p # map_assign ps k v)"

type_synonym seed = "nat list"

fun go_range :: "seed \<Rightarrow> 'a list \<Rightarrow> 'a list" where
  "go_range sd [] = []"
| "go_range sd (x # xs) =
     (let rest = go_range (tl sd) xs;
          i = (case sd of [] \<Rightarrow> 0 | n # _ \<Rightarrow> n mod (length rest + 1))
      in take i rest @ x # drop i rest)"

text \<open>\<open>lo.Keys\<close> collects the keys of a map; the differ only tests membership in the result.\<close>

definition lo_Keys :: "gomap \<Rightarrow> string list" where
  "lo_Keys m = map fst m"

text \<open>\<open>lo.Invert\<close>: \<open>for k := range in { out[in[k]] = k }\<close>.\<close>

definition lo_Invert :: "seed \<Rightarrow> gomap \<Rightarrow> gomap" where
  "lo_Invert sd m = foldl (\<lambda>out (k, v). map_assign out v k) [] (go_range sd m)"

section \<open>The SQLite schema model\<close>

record NullString =
  ns_String :: string
  ns_Valid :: bool

record SQLiteColumn =
  c_Name :: string
  c_Type :: string
  c_NotNull :: bool
  c_PrimaryKey :: bool
  c_Default :: NullString

record SQLiteForeignKey =
  fk_Table :: string
  fk_From :: "string list"
  fk_To :: "string list"
  fk_OnUpdate :: string
  fk_OnDelete :: string

record SQLiteIndex =
  i_Table :: string
  i_Name :: string
  i_Columns :: "string list"
  i_Unique :: bool

record SQLiteTrigger =
  tr_Name :: string
  tr_SQL :: string

record SQLiteView =
  v_Name :: string
  v_SQL :: string

record SQLiteTable =
  t_Name :: string
  t_Columns :: "SQLiteColumn list"
  t_Indexes :: "SQLiteIndex list"
  t_Triggers :: "SQLiteTrigger list"
  t_ForeignKeys :: "SQLiteForeignKey list"

subsection \<open>Columns\<close>

text \<open>\<open>HasEqualAttributes\<close>: a copy of the column with the other's name equals the other.\<close>

definition HasEqualAttributes :: "SQLiteColumn \<Rightarrow> SQLiteColumn \<Rightarrow> bool" where
  "HasEqualAttributes c other = (c\<lparr>c_Name := c_Name other\<rparr> = other)"

definition SQLiteColumn_String :: "SQLiteColumn \<Rightarrow> string" where
  "SQLiteColumn_String c =
     quoted (c_Name c) @ '' '' @ c_Type c
     @ (if c_NotNull c then '' NOT NULL'' else [])
     @ (if c_PrimaryKey c then '' PRIMARY KEY'' else [])
     @ (if ns_Valid (c_Default c) then '' DEFAULT '' @ ns_String (c_Default c) else [])"

definition compatibleTypes :: "string list" where
  "compatibleTypes = [''TEXT'', ''INTEGER'', ''REAL'', ''BLOB'']"

definition IsTypeChangeCompatible :: "SQLiteColumn \<Rightarrow> SQLiteColumn \<Rightarrow> bool" where
  "IsTypeChangeCompatible c other =
     (c_Type c \<in> set compatibleTypes \<and> c_Type other \<in> set compatibleTypes)"

subsection \<open>Foreign keys and indexes\<close>

definition SQLiteForeignKey_String :: "SQLiteForeignKey \<Rightarrow> string" where
  "SQLiteForeignKey_String fk =
     ''FOREIGN KEY ('' @ Join (map quoted (fk_From fk)) '', '' @ '') REFERENCES ''
     @ quoted (fk_Table fk) @ '' ('' @ Join (map quoted (fk_To fk)) '', '' @ '')''
     @ (if fk_OnUpdate fk \<noteq> ''NO ACTION'' \<and> fk_OnUpdate fk \<noteq> []
        then '' ON UPDATE '' @ fk_OnUpdate fk else [])
     @ (if fk_OnDelete fk \<noteq> ''NO ACTION'' \<and> fk_OnDelete fk \<noteq> []
        then '' ON DELETE '' @ fk_OnDelete fk else [])"

text \<open>The loops \<open>for i := range xs { if xs[i] != ys[i] { return false } }\<close>, run after the
  lengths were found equal.\<close>

definition same_elements :: "string list \<Rightarrow> string list \<Rightarrow> bool" where
  "same_elements xs ys = list_all (\<lambda>i. xs ! i = ys ! i) [0..<length xs]"

definition SQLiteForeignKey_Equal :: "SQLiteForeignKey \<Rightarrow> SQLiteForeignKey \<Rightarrow> bool" where
  "SQLiteForeignKey_Equal fk other =
     (if fk_Table fk \<noteq> fk_Table other \<or> fk_OnUpdate fk \<noteq> fk_OnUpdate other
         \<or> fk_OnDelete fk \<noteq> fk_OnDelete other then False
      else if length (fk_From fk) \<noteq> length (fk_From other)
         \<or> length (fk_To fk) \<noteq> length (fk_To other) then False
      else if \<not> same_elements (fk_From fk) (fk_From other) then False
      else if \<not> same_elements (fk_To fk) (fk_To other) then False
      else True)"

definition SQLiteIndex_Equal :: "SQLiteIndex \<Rightarrow> SQLiteIndex \<Rightarrow> bool" where
  "SQLiteIndex_Equal i other =
     (if i_Name i \<noteq> i_Name other \<or> i_Table i \<noteq> i_Table other \<or> i_Unique i \<noteq> i_Unique other
      then False
      else if length (i_Columns i) \<noteq> length (i_Columns other) then False
      else if \<not> same_elements (i_Columns i) (i_Columns other) then False
      else True)"

definition SQLiteIndex_String :: "SQLiteIndex \<Rightarrow> string" where
  "SQLiteIndex_String i =
     ''CREATE '' @ (if i_Unique i then ''UNIQUE '' else [])
     @ ''INDEX '' @ quoted (i_Name i) @ '' ON '' @ quoted (i_Table i)
     @ '' ('' @ Join (map quoted (i_Columns i)) '', '' @ '');''"

subsection \<open>Tables\<close>

definition ColumnByName :: "SQLiteTable \<Rightarrow> string \<Rightarrow> SQLiteColumn option" where
  "ColumnByName t name = find (\<lambda>column. c_Name column = name) (t_Columns t)"

definition IndexByName :: "SQLiteTable \<Rightarrow> string \<Rightarrow> SQLiteIndex option" where
  "IndexByName t name = find (\<lambda>index. i_Name index = name) (t_Indexes t)"

definition TriggerByName :: "SQLiteTable \<Rightarrow> string \<Rightarrow> SQLiteTrigger option" where
  "TriggerByName t name = find (\<lambda>trigger. tr_Name trigger = name) (t_Triggers t)"

definition StringCreateTable :: "SQLiteTable \<Rightarrow> string" where
  "StringCreateTable t =
     (let columnLines = map (\<lambda>column. tab @ SQLiteColumn_String column) (t_Columns t)
                        @ map (\<lambda>fk. tab @ SQLiteForeignKey_String fk) (t_ForeignKeys t)
      in ''CREATE TABLE '' @ quoted (t_Name t) @ '' ('' @ nl @ Join columnLines ('','' @ nl)
         @ nl @ '');'')"

definition StringCreateIndexes :: "SQLiteTable \<Rightarrow> string" where
  "StringCreateIndexes t = Join (map SQLiteIndex_String (t_Indexes t)) nl"

definition StringCreateTriggers :: "SQLiteTable \<Rightarrow> string" where
  "StringCreateTriggers t = Join (map (\<lambda>trigger. tr_SQL trigger @ '';'') (t_Triggers t)) nl"

definition SQLiteTable_String :: "SQLiteTable \<Rightarrow> string" where
  "SQLiteTable_String t =
     StringCreateTable t
     @ (if StringCreateIndexes t \<noteq> [] then nl @ StringCreateIndexes t else [])
     @ (if StringCreateTriggers t \<noteq> [] then nl @ StringCreateTriggers t else [])"

subsection \<open>Column classification: \<open>DiffColumns\<close>\<close>

record SQLiteTableColumnsDiff =
  Added :: "string list"
  Modified :: "string list"
  Removed :: "string list"
  Renamed :: gomap
  ForeignKeysChanged :: bool

text \<open>The search for a renamed column: the first target column whose name the source table
  does not have and whose other attributes equal the source column's.\<close>

definition findRenamed :: "SQLiteTable \<Rightarrow> SQLiteTable \<Rightarrow> SQLiteColumn \<Rightarrow> SQLiteColumn option" where
  "findRenamed t other sourceColumn =
     find (\<lambda>c. ColumnByName t (c_Name c) = None \<and> HasEqualAttributes c sourceColumn)
          (t_Columns other)"

text \<open>The body of the loop over the source columns.\<close>

definition diffSourceColumn ::
  "SQLiteTable \<Rightarrow> SQLiteTable \<Rightarrow> SQLiteTableColumnsDiff \<Rightarrow> SQLiteColumn \<Rightarrow> SQLiteTableColumnsDiff"
where
  "diffSourceColumn t other diff sourceColumn =
     (case ColumnByName other (c_Name sourceColumn) of
        None \<Rightarrow>
          (case findRenamed t other sourceColumn of
             Some renamedColumn \<Rightarrow>
               diff\<lparr>Renamed := map_assign (Renamed diff) (c_Name renamedColumn) (c_Name sourceColumn)\<rparr>
           | None \<Rightarrow> diff\<lparr>Added := Added diff @ [c_Name sourceColumn]\<rparr>)
      | Some targetColumn \<Rightarrow>
          if sourceColumn = targetColumn then diff
          else if c_Type sourceColumn \<noteq> c_Type targetColumn then
            (if IsTypeChangeCompatible sourceColumn targetColumn
             then diff\<lparr>Modified := Modified diff @ [c_Name sourceColumn]\<rparr>
             else diff\<lparr>Removed := Removed diff @ [c_Name targetColumn],
                       Added := Added diff @ [c_Name sourceColumn]\<rparr>)
          else diff\<lparr>Modified := Modified diff @ [c_Name sourceColumn]\<rparr>)"

text \<open>The body of the loop over the target columns.\<close>

definition diffTargetColumn ::
  "SQLiteTable \<Rightarrow> SQLiteTableColumnsDiff \<Rightarrow> SQLiteColumn \<Rightarrow> SQLiteTableColumnsDiff"
where
  "diffTargetColumn t diff targetColumn =
     (if ColumnByName t (c_Name targetColumn) = None
         \<and> c_Name targetColumn \<notin> set (lo_Keys (Renamed diff))
      then diff\<lparr>Removed := Removed diff @ [c_Name targetColumn]\<rparr>
      else diff)"

definition foreignKeysChanged :: "SQLiteTable \<Rightarrow> SQLiteTable \<Rightarrow> bool" where
  "foreignKeysChanged t other =
     (if length (t_ForeignKeys t) \<noteq> length (t_ForeignKeys other) then True
      else list_ex (\<lambda>sourceForeignKey.
                      \<not> list_ex (\<lambda>fk. SQLiteForeignKey_Equal fk sourceForeignKey)
                                (t_ForeignKeys other))
                   (t_ForeignKeys t))"

definition emptyDiff :: SQLiteTableColumnsDiff where
  "emptyDiff = \<lparr>Added = [], Modified = [], Removed = [], Renamed = [],
                ForeignKeysChanged = False\<rparr>"

definition DiffColumns :: "SQLiteTable \<Rightarrow> SQLiteTable \<Rightarrow> SQLiteTableColumnsDiff" where
  "DiffColumns t other =
     (let d1 = foldl (diffSourceColumn t other) emptyDiff (t_Columns t);
          d2 = foldl (diffTargetColumn t) d1 (t_Columns other)
      in d2\<lparr>ForeignKeysChanged := foreignKeysChanged t other\<rparr>)"


subsection \<open>Emitted statements\<close>

text \<open>
  The differ writes its statements into a \<open>strings.Builder\<close>, one \<open>fmt.Fprintf\<close> per
  statement. The builder is modelled as the list of the statements written so far;
  \<open>render\<close> is the text each \<open>Fprintf\<close> writes and \<open>render_all\<close> the builder's content.
\<close>

datatype stmt =
    CreateTable SQLiteTable
  | InsertSelect string "string list" "string list" string
  | DropTable string
  | RenameTable string string
  | CreateIndex SQLiteIndex
  | RenameColumn string string string
  | DropColumn string string
  | AddColumn string SQLiteColumn
  | DropIndex string
  | CreateTrigger string
  | DropTrigger string

fun render :: "stmt \<Rightarrow> string" where
  "render (CreateTable t) = StringCreateTable t @ nl"
| "render (InsertSelect tempName insertColumns selectColumns name) =
     ''INSERT INTO '' @ quoted tempName @ '' ('' @ Join insertColumns '', '' @ '') SELECT ''
     @ Join selectColumns '', '' @ '' FROM '' @ quoted name @ '';'' @ nl"
| "render (DropTable name) = ''DROP TABLE '' @ quoted name @ '';'' @ nl"
| "render (RenameTable tempName name) =
     ''ALTER TABLE '' @ quoted tempName @ '' RENAME TO '' @ quoted name @ '';'' @ nl"
| "render (CreateIndex idx) = SQLiteIndex_String idx @ nl"
| "render (RenameColumn name oldName newName) =
     ''ALTER TABLE '' @ quoted name @ '' RENAME COLUMN '' @ quoted oldName @ '' TO ''
     @ quoted newName @ '';'' @ nl"
| "render (DropColumn name columnName) =
     ''ALTER TABLE '' @ quoted name @ '' DROP COLUMN '' @ quoted columnName @ '';'' @ nl"
| "render (AddColumn name column) =
     ''ALTER TABLE '' @ quoted name @ '' ADD COLUMN '' @ SQLiteColumn_String column @ '';'' @ nl"
| "render (DropIndex name) = ''DROP INDEX '' @ quoted name @ '';'' @ nl"
| "render (CreateTrigger sql) = sql @ '';'' @ nl"
| "render (DropTrigger name) = ''DROP TRIGGER '' @ quoted name @ '';'' @ nl"

definition render_all :: "stmt list \<Rightarrow> string" where
  "render_all ss = concat (map render ss)"

text \<open>The in-place alterations of a table's columns, as opposed to the statements of a rebuild.\<close>

fun isColumnAlter :: "stmt \<Rightarrow> bool" where
  "isColumnAlter (RenameColumn name oldName newName) = True"
| "isColumnAlter (DropColumn name columnName) = True"
| "isColumnAlter (AddColumn name column) = True"
| "isColumnAlter s = False"

subsection \<open>\<open>DiffTable\<close>: rebuild or in-place alteration\<close>

datatype error = InternalError string | DriverError string

definition tempTable :: "SQLiteTable \<Rightarrow> SQLiteTable" where
  "tempTable t = t\<lparr>t_Name := ''_'' @ t_Name t @ ''_temp''\<rparr>"

text \<open>The expression that fills a column of the shadow table from the old table.\<close>

definition selectColumn :: "SQLiteTable \<Rightarrow> gomap \<Rightarrow> SQLiteColumn \<Rightarrow> string" where
  "selectColumn other newToOld newCol =
     (if ColumnByName other (c_Name newCol) \<noteq> None then quoted (c_Name newCol)
      else (case map_of newToOld (c_Name newCol) of
              Some oldName \<Rightarrow> quoted oldName
            | None \<Rightarrow>
                if ns_Valid (c_Default newCol) then ns_String (c_Default newCol)
                else ''NULL''))"

text \<open>The body of the loop that builds \<open>insertColumns\<close> and \<open>selectColumns\<close>.\<close>

definition insertSelectStep ::
  "SQLiteTable \<Rightarrow> gomap \<Rightarrow> string list \<times> string list \<Rightarrow> SQLiteColumn \<Rightarrow> string list \<times> string list"
where
  "insertSelectStep other newToOld acc newCol =
     (fst acc @ [quoted (c_Name newCol)], snd acc @ [selectColumn other newToOld newCol])"

definition insertSelectColumns ::
  "seed \<Rightarrow> SQLiteTable \<Rightarrow> SQLiteTable \<Rightarrow> string list \<times> string list"
where
  "insertSelectColumns sd t other =
     foldl (insertSelectStep other (lo_Invert sd (Renamed (DiffColumns t other)))) ([], [])
           (t_Columns t)"

definition rebuildNeeded :: "SQLiteTableColumnsDiff \<Rightarrow> bool" where
  "rebuildNeeded columnsDiff =
     (length (Modified columnsDiff) > 0 \<or> ForeignKeysChanged columnsDiff)"

definition rebuildStmts :: "seed \<Rightarrow> SQLiteTable \<Rightarrow> SQLiteTable \<Rightarrow> stmt list" where
  "rebuildStmts sd t other =
     (let cols = insertSelectColumns sd t other
      in [CreateTable (tempTable t),
          InsertSelect (t_Name (tempTable t)) (fst cols) (snd cols) (t_Name t),
          DropTable (t_Name t),
          RenameTable (t_Name (tempTable t)) (t_Name t)]
         @ map CreateIndex (t_Indexes t))"

text \<open>The loop over the added columns; it is the only place where \<open>DiffTable\<close> fails, and a
  failure discards everything written before.\<close>

fun addColumnStmts :: "SQLiteTable \<Rightarrow> string list \<Rightarrow> error + stmt list" where
  "addColumnStmts t [] = Inr []"
| "addColumnStmts t (columnName # rest) =
     (case ColumnByName t columnName of
        None \<Rightarrow> Inl (InternalError (''internal error: added column '' @ columnName
                                     @ '' not found in table '' @ t_Name t))
      | Some column \<Rightarrow>
          (case addColumnStmts t rest of
             Inl e \<Rightarrow> Inl e
           | Inr ss \<Rightarrow> Inr (AddColumn (t_Name t) column # ss)))"

definition inPlaceStmts ::
  "seed \<Rightarrow> SQLiteTable \<Rightarrow> SQLiteTableColumnsDiff \<Rightarrow> error + stmt list"
where
  "inPlaceStmts sd t columnsDiff =
     (case addColumnStmts t (Added columnsDiff) of
        Inl e \<Rightarrow> Inl e
      | Inr adds \<Rightarrow>
          Inr (map (\<lambda>(oldName, newName). RenameColumn (t_Name t) oldName newName)
                   (go_range sd (Renamed columnsDiff))
               @ map (DropColumn (t_Name t)) (Removed columnsDiff)
               @ adds))"

definition DiffTable_stmts :: "seed \<Rightarrow> SQLiteTable \<Rightarrow> SQLiteTable \<Rightarrow> error + stmt list" where
  "DiffTable_stmts sd t other =
     (let columnsDiff = DiffColumns t other
      in if rebuildNeeded columnsDiff then Inr (rebuildStmts sd t other)
         else inPlaceStmts sd t columnsDiff)"

definition DiffTable :: "seed \<Rightarrow> SQLiteTable \<Rightarrow> SQLiteTable \<Rightarrow> error + string" where
  "DiffTable sd t other =
     (case DiffTable_stmts sd t other of
        Inl e \<Rightarrow> Inl e
      | Inr ss \<Rightarrow> Inr (TrimSpace (render_all ss)))"

subsection \<open>Dependent objects: triggers, indexes, views\<close>

definition diffSourceTrigger :: "SQLiteTable \<Rightarrow> SQLiteTrigger \<Rightarrow> stmt list" where
  "diffSourceTrigger other sourceTrigger =
     (case TriggerByName other (tr_Name sourceTrigger) of
        None \<Rightarrow> [CreateTrigger (tr_SQL sourceTrigger)]
      | Some targetTrigger \<Rightarrow>
          if tr_SQL sourceTrigger \<noteq> tr_SQL targetTrigger
          then [DropTrigger (tr_Name targetTrigger), CreateTrigger (tr_SQL sourceTrigger)]
          else [])"

definition diffTargetTrigger :: "SQLiteTable \<Rightarrow> SQLiteTrigger \<Rightarrow> stmt list" where
  "diffTargetTrigger t targetTrigger =
     (if TriggerByName t (tr_Name targetTrigger) = None
      then [DropTrigger (tr_Name targetTrigger)] else [])"

definition DiffTriggers_stmts :: "SQLiteTable \<Rightarrow> SQLiteTable \<Rightarrow> stmt list" where
  "DiffTriggers_stmts t other =
     concat (map (diffSourceTrigger other) (t_Triggers t))
     @ concat (map (diffTargetTrigger t) (t_Triggers other))"

text \<open>\<open>DiffTriggers\<close> and \<open>DiffIndexes\<close> return the builder untrimmed, and never an error.\<close>

definition DiffTriggers :: "SQLiteTable \<Rightarrow> SQLiteTable \<Rightarrow> string" where
  "DiffTriggers t other = render_all (DiffTriggers_stmts t other)"

definition diffSourceIndex :: "SQLiteTable \<Rightarrow> SQLiteIndex \<Rightarrow> stmt list" where
  "diffSourceIndex other sourceIndex =
     (case IndexByName other (i_Name sourceIndex) of
        None \<Rightarrow> [CreateIndex sourceIndex]
      | Some targetIndex \<Rightarrow>
          if \<not> SQLiteIndex_Equal sourceIndex targetIndex
          then [DropIndex (i_Name targetIndex), CreateIndex sourceIndex]
          else [])"

definition diffTargetIndex :: "SQLiteTable \<Rightarrow> SQLiteIndex \<Rightarrow> stmt list" where
  "diffTargetIndex t targetIndex =
     (if IndexByName t (i_Name targetIndex) = None
      then [DropIndex (i_Name targetIndex)] else [])"

definition DiffIndexes_stmts :: "SQLiteTable \<Rightarrow> SQLiteTable \<Rightarrow> stmt list" where
  "DiffIndexes_stmts t other =
     concat (map (diffSourceIndex other) (t_Indexes t))
     @ concat (map (diffTargetIndex t) (t_Indexes other))"

definition DiffIndexes :: "SQLiteTable \<Rightarrow> SQLiteTable \<Rightarrow> string" where
  "DiffIndexes t other = render_all (DiffIndexes_stmts t other)"

definition SQLiteView_Diff :: "SQLiteView \<Rightarrow> SQLiteView \<Rightarrow> string" where
  "SQLiteView_Diff v other =
     TrimSpace (if v_SQL v \<noteq> v_SQL other
                then ''DROP VIEW '' @ quoted (v_Name other) @ '';'' @ nl @ v_SQL v @ '';'' @ nl
                else [])"

subsection \<open>The driver: \<open>DiffTables\<close>, \<open>DiffViews\<close>, \<open>Diff\<close>\<close>

text \<open>
  The driver reads both databases into lists of tables and views and compares the lists.
  The model starts from the lists read (a \<open>SQLiteSchema\<close> per side). Each call of
  \<open>DiffTable\<close> traverses its own map, so \<open>DiffTables\<close> takes one seed per table that is
  present on both sides, in the order of the source tables.
\<close>

record SQLiteSchema =
  s_Tables :: "SQLiteTable list"
  s_Views :: "SQLiteView list"

fun diffSourceTables :: "seed list \<Rightarrow> SQLiteTable list \<Rightarrow> SQLiteTable list \<Rightarrow> error + string" where
  "diffSourceTables sds targetTables [] = Inr []"
| "diffSourceTables sds targetTables (sourceTable # rest) =
     (case find (\<lambda>t. t_Name t = t_Name sourceTable) targetTables of
        None \<Rightarrow>
          (case diffSourceTables sds targetTables rest of
             Inl e \<Rightarrow> Inl e
           | Inr out \<Rightarrow> Inr (SQLiteTable_String sourceTable @ nl @ out))
      | Some targetTable \<Rightarrow>
          (case DiffTable (case sds of [] \<Rightarrow> [] | sd # _ \<Rightarrow> sd) sourceTable targetTable of
             Inl e \<Rightarrow> Inl e
           | Inr subDiff \<Rightarrow>
               (case diffSourceTables (tl sds) targetTables rest of
                  Inl e \<Rightarrow> Inl e
                | Inr out \<Rightarrow>
                    Inr (subDiff @ nl @ DiffIndexes sourceTable targetTable @ nl
                         @ DiffTriggers sourceTable targetTable @ nl @ out))))"

definition removedTables :: "SQLiteTable list \<Rightarrow> SQLiteTable list \<Rightarrow> string" where
  "removedTables sourceTables targetTables =
     concat (map (\<lambda>targetTable.
                    if find (\<lambda>t. t_Name t = t_Name targetTable) sourceTables = None
                    then ''DROP TABLE '' @ quoted (t_Name targetTable) @ '';'' @ nl
                    else [])
                 targetTables)"

definition DiffTables :: "seed list \<Rightarrow> SQLiteTable list \<Rightarrow> SQLiteTable list \<Rightarrow> error + string" where
  "DiffTables sds sourceTables targetTables =
     (case diffSourceTables sds targetTables sourceTables of
        Inl e \<Rightarrow> Inl e
      | Inr out \<Rightarrow> Inr (TrimSpace (out @ removedTables sourceTables targetTables)))"

definition diffSourceView :: "SQLiteView list \<Rightarrow> SQLiteView \<Rightarrow> string" where
  "diffSourceView targetViews sourceView =
     (case find (\<lambda>v. v_Name v = v_Name sourceView) targetViews of
        None \<Rightarrow> v_SQL sourceView @ '';'' @ nl
      | Some targetView \<Rightarrow> SQLiteView_Diff sourceView targetView @ nl)"

definition diffTargetView :: "SQLiteView list \<Rightarrow> SQLiteView \<Rightarrow> string" where
  "diffTargetView sourceViews targetView =
     (if find (\<lambda>v. v_Name v = v_Name targetView) sourceViews = None
      then ''DROP VIEW '' @ quoted (v_Name targetView) @ '';'' @ nl
      else [])"

definition DiffViews :: "SQLiteView list \<Rightarrow> SQLiteView list \<Rightarrow> string" where
  "DiffViews sourceViews targetViews =
     TrimSpace (concat (map (diffSourceView targetViews) sourceViews)
                @ concat (map (diffTargetView sourceViews) targetViews))"

definition Diff :: "seed list \<Rightarrow> SQLiteSchema \<Rightarrow> SQLiteSchema \<Rightarrow> error + string" where
  "Diff sds source target =
     (case DiffTables sds (s_Tables source) (s_Tables target) of
        Inl e \<Rightarrow> Inl e
      | Inr subDiff \<Rightarrow>
          Inr (TrimSpace (subDiff @ nl @ DiffViews (s_Views source) (s_Views target) @ nl)))"


section \<open>The PostgreSQL schema model and differ\<close>

record PostgresColumn =
  pc_Name :: string
  pc_Type :: string
  pc_NotNull :: bool
  pc_Default :: NullString

record PostgresConstraint =
  pk_Name :: string
  pk_Type :: string
  pk_Def :: string

text \<open>
  The declarations of \<open>PostgresIndex\<close> and \<open>PostgresTrigger\<close> are not part of the
  sources at hand. The introspection fills their fields \<open>Name\<close> and \<open>Def\<close> and the differ
  reads only these; their \<open>String\<close> methods are parameters (\<open>indexString\<close>,
  \<open>triggerString\<close>) of every function that prints one.
\<close>

record PostgresIndex =
  pi_Name :: string
  pi_Def :: string

record PostgresTrigger =
  pg_Name :: string
  pg_Def :: string

record PostgresView =
  pv_Name :: string
  pv_Def :: string

record PostgresTable =
  pt_Name :: string
  pt_Columns :: "PostgresColumn list"
  pt_Indexes :: "PostgresIndex list"
  pt_Constraints :: "PostgresConstraint list"
  pt_Triggers :: "PostgresTrigger list"

definition PostgresColumn_HasEqualAttributes :: "PostgresColumn \<Rightarrow> PostgresColumn \<Rightarrow> bool" where
  "PostgresColumn_HasEqualAttributes c other = (c\<lparr>pc_Name := pc_Name other\<rparr> = other)"

definition PostgresColumn_String :: "PostgresColumn \<Rightarrow> string" where
  "PostgresColumn_String c =
     quoted (pc_Name c) @ '' '' @ pc_Type c
     @ (if pc_NotNull c then '' NOT NULL'' else [])
     @ (if ns_Valid (pc_Default c) then '' DEFAULT '' @ ns_String (pc_Default c) else [])"

definition PostgresConstraint_String :: "PostgresConstraint \<Rightarrow> string" where
  "PostgresConstraint_String c = ''CONSTRAINT '' @ quoted (pk_Name c) @ '' '' @ pk_Def c"

definition PostgresView_String :: "PostgresView \<Rightarrow> string" where
  "PostgresView_String v = ''CREATE VIEW '' @ [dq] @ pv_Name v @ [dq] @ '' AS '' @ pv_Def v"

definition PostgresTable_ColumnByName :: "PostgresTable \<Rightarrow> string \<Rightarrow> PostgresColumn option" where
  "PostgresTable_ColumnByName t name = find (\<lambda>column. pc_Name column = name) (pt_Columns t)"

definition ConstraintByName :: "PostgresTable \<Rightarrow> string \<Rightarrow> PostgresConstraint option" where
  "ConstraintByName t name = find (\<lambda>c. pk_Name c = name) (pt_Constraints t)"

definition PostgresTable_IndexByName :: "PostgresTable \<Rightarrow> string \<Rightarrow> PostgresIndex option" where
  "PostgresTable_IndexByName t name = find (\<lambda>i. pi_Name i = name) (pt_Indexes t)"

definition PostgresTable_TriggerByName :: "PostgresTable \<Rightarrow> string \<Rightarrow> PostgresTrigger option" where
  "PostgresTable_TriggerByName t name = find (\<lambda>tr. pg_Name tr = name) (pt_Triggers t)"

definition PostgresTable_StringCreateTable :: "PostgresTable \<Rightarrow> string" where
  "PostgresTable_StringCreateTable t =
     (let columnLines = map (\<lambda>column. tab @ PostgresColumn_String column) (pt_Columns t)
                        @ map (\<lambda>c. tab @ PostgresConstraint_String c) (pt_Constraints t)
      in ''CREATE TABLE '' @ quoted (pt_Name t) @ '' ('' @ nl @ Join columnLines ('','' @ nl)
         @ nl @ '');'')"

definition PostgresTable_String ::
  "(PostgresIndex \<Rightarrow> string) \<Rightarrow> (PostgresTrigger \<Rightarrow> string) \<Rightarrow> PostgresTable \<Rightarrow> string"
where
  "PostgresTable_String indexString triggerString t =
     PostgresTable_StringCreateTable t
     @ concat (map (\<lambda>index. nl @ indexString index) (pt_Indexes t))
     @ concat (map (\<lambda>trigger. nl @ triggerString trigger) (pt_Triggers t))"

datatype pg_stmt =
    PgAddColumn string PostgresColumn
  | PgAlterColumnType string string string
  | PgSetNotNull string string
  | PgDropNotNull string string
  | PgSetDefault string string string
  | PgDropDefault string string
  | PgDropColumn string string
  | PgAddConstraint string PostgresConstraint
  | PgDropConstraint string string
  | PgCreateIndex PostgresIndex
  | PgDropIndex string
  | PgCreateTrigger PostgresTrigger
  | PgDropTrigger string string

fun pg_render ::
  "(PostgresIndex \<Rightarrow> string) \<Rightarrow> (PostgresTrigger \<Rightarrow> string) \<Rightarrow> pg_stmt \<Rightarrow> string"
where
  "pg_render ix tg (PgAddColumn name column) =
     ''ALTER TABLE '' @ quoted name @ '' ADD COLUMN '' @ PostgresColumn_String column @ '';'' @ nl"
| "pg_render ix tg (PgAlterColumnType name columnName ty) =
     ''ALTER TABLE '' @ quoted name @ '' ALTER COLUMN '' @ quoted columnName @ '' TYPE '' @ ty
     @ '';'' @ nl"
| "pg_render ix tg (PgSetNotNull name columnName) =
     ''ALTER TABLE '' @ quoted name @ '' ALTER COLUMN '' @ quoted columnName @ '' SET NOT NULL;''
     @ nl"
| "pg_render ix tg (PgDropNotNull name columnName) =
     ''ALTER TABLE '' @ quoted name @ '' ALTER COLUMN '' @ quoted columnName @ '' DROP NOT NULL;''
     @ nl"
| "pg_render ix tg (PgSetDefault name columnName dflt) =
     ''ALTER TABLE '' @ quoted name @ '' ALTER COLUMN '' @ quoted columnName @ '' SET DEFAULT ''
     @ dflt @ '';'' @ nl"
| "pg_render ix tg (PgDropDefault name columnName) =
     ''ALTER TABLE '' @ quoted name @ '' ALTER COLUMN '' @ quoted columnName @ '' DROP DEFAULT;''
     @ nl"
| "pg_render ix tg (PgDropColumn name columnName) =
     ''ALTER TABLE '' @ quoted name @ '' DROP COLUMN '' @ quoted columnName @ '';'' @ nl"
| "pg_render ix tg (PgAddConstraint name c) =
     ''ALTER TABLE '' @ quoted name @ '' ADD '' @ PostgresConstraint_String c @ '';'' @ nl"
| "pg_render ix tg (PgDropConstraint name cname) =
     ''ALTER TABLE '' @ quoted name @ '' DROP CONSTRAINT '' @ quoted cname @ '';'' @ nl"
| "pg_render ix tg (PgCreateIndex index) = ix index @ nl"
| "pg_render ix tg (PgDropIndex iname) = ''DROP INDEX '' @ quoted iname @ '';'' @ nl"
| "pg_render ix tg (PgCreateTrigger trigger) = tg trigger @ nl"
| "pg_render ix tg (PgDropTrigger tname name) =
     ''DROP TRIGGER '' @ quoted tname @ '' ON '' @ quoted name @ '';'' @ nl"


text \<open>The body of the loop over the source columns (added or modified columns).\<close>

definition pgDiffSourceColumn :: "PostgresTable \<Rightarrow> PostgresTable \<Rightarrow> PostgresColumn \<Rightarrow> pg_stmt list" where
  "pgDiffSourceColumn t other sourceColumn =
     (case PostgresTable_ColumnByName other (pc_Name sourceColumn) of
        None \<Rightarrow> [PgAddColumn (pt_Name t) sourceColumn]
      | Some targetColumn \<Rightarrow>
          if \<not> PostgresColumn_HasEqualAttributes sourceColumn targetColumn then
            (if pc_Type sourceColumn \<noteq> pc_Type targetColumn
             then [PgAlterColumnType (pt_Name t) (pc_Name sourceColumn) (pc_Type sourceColumn)]
             else [])
            @ (if pc_NotNull sourceColumn \<noteq> pc_NotNull targetColumn
               then (if pc_NotNull sourceColumn
                     then [PgSetNotNull (pt_Name t) (pc_Name sourceColumn)]
                     else [PgDropNotNull (pt_Name t) (pc_Name sourceColumn)])
               else [])
            @ (if pc_Default sourceColumn \<noteq> pc_Default targetColumn
               then (if ns_Valid (pc_Default sourceColumn)
                     then [PgSetDefault (pt_Name t) (pc_Name sourceColumn)
                                        (ns_String (pc_Default sourceColumn))]
                     else [PgDropDefault (pt_Name t) (pc_Name sourceColumn)])
               else [])
          else [])"

text \<open>The body of the loop over the target columns (removed columns).\<close>

definition pgDiffTargetColumn :: "PostgresTable \<Rightarrow> PostgresColumn \<Rightarrow> pg_stmt list" where
  "pgDiffTargetColumn t targetColumn =
     (if PostgresTable_ColumnByName t (pc_Name targetColumn) = None
      then [PgDropColumn (pt_Name t) (pc_Name targetColumn)] else [])"

definition pgColumnStmts :: "PostgresTable \<Rightarrow> PostgresTable \<Rightarrow> pg_stmt list" where
  "pgColumnStmts t other =
     concat (map (pgDiffSourceColumn t other) (pt_Columns t))
     @ concat (map (pgDiffTargetColumn t) (pt_Columns other))"

definition pgDiffSourceConstraint ::
  "PostgresTable \<Rightarrow> PostgresTable \<Rightarrow> PostgresConstraint \<Rightarrow> pg_stmt list"
where
  "pgDiffSourceConstraint t other sourceConstraint =
     (case ConstraintByName other (pk_Name sourceConstraint) of
        None \<Rightarrow> [PgAddConstraint (pt_Name t) sourceConstraint]
      | Some targetConstraint \<Rightarrow>
          if pk_Def sourceConstraint \<noteq> pk_Def targetConstraint
          then [PgDropConstraint (pt_Name t) (pk_Name targetConstraint),
                PgAddConstraint (pt_Name t) sourceConstraint]
          else [])"

definition pgDiffTargetConstraint :: "PostgresTable \<Rightarrow> PostgresConstraint \<Rightarrow> pg_stmt list" where
  "pgDiffTargetConstraint t targetConstraint =
     (if ConstraintByName t (pk_Name targetConstraint) = None
      then [PgDropConstraint (pt_Name t) (pk_Name targetConstraint)] else [])"

definition pgConstraintStmts :: "PostgresTable \<Rightarrow> PostgresTable \<Rightarrow> pg_stmt list" where
  "pgConstraintStmts t other =
     concat (map (pgDiffSourceConstraint t other) (pt_Constraints t))
     @ concat (map (pgDiffTargetConstraint t) (pt_Constraints other))"

definition pgDiffSourceIndex :: "PostgresTable \<Rightarrow> PostgresIndex \<Rightarrow> pg_stmt list" where
  "pgDiffSourceIndex other sourceIndex =
     (case PostgresTable_IndexByName other (pi_Name sourceIndex) of
        None \<Rightarrow> [PgCreateIndex sourceIndex]
      | Some targetIndex \<Rightarrow>
          if pi_Def sourceIndex \<noteq> pi_Def targetIndex
          then [PgDropIndex (pi_Name targetIndex), PgCreateIndex sourceIndex]
          else [])"

definition pgDiffTargetIndex :: "PostgresTable \<Rightarrow> PostgresIndex \<Rightarrow> pg_stmt list" where
  "pgDiffTargetIndex t targetIndex =
     (if PostgresTable_IndexByName t (pi_Name targetIndex) = None
      then [PgDropIndex (pi_Name targetIndex)] else [])"

definition pgIndexStmts :: "PostgresTable \<Rightarrow> PostgresTable \<Rightarrow> pg_stmt list" where
  "pgIndexStmts t other =
     concat (map (pgDiffSourceIndex other) (pt_Indexes t))
     @ concat (map (pgDiffTargetIndex t) (pt_Indexes other))"

definition pgDiffSourceTrigger :: "PostgresTable \<Rightarrow> PostgresTable \<Rightarrow> PostgresTrigger \<Rightarrow> pg_stmt list" where
  "pgDiffSourceTrigger t other sourceTrigger =
     (case PostgresTable_TriggerByName other (pg_Name sourceTrigger) of
        None \<Rightarrow> [PgCreateTrigger sourceTrigger]
      | Some targetTrigger \<Rightarrow>
          if pg_Def sourceTrigger \<noteq> pg_Def targetTrigger
          then [PgDropTrigger (pg_Name targetTrigger) (pt_Name t), PgCreateTrigger sourceTrigger]
          else [])"

definition pgDiffTargetTrigger :: "PostgresTable \<Rightarrow> PostgresTrigger \<Rightarrow> pg_stmt list" where
  "pgDiffTargetTrigger t targetTrigger =
     (if PostgresTable_TriggerByName t (pg_Name targetTrigger) = None
      then [PgDropTrigger (pg_Name targetTrigger) (pt_Name t)] else [])"

definition pgTriggerStmts :: "PostgresTable \<Rightarrow> PostgresTable \<Rightarrow> pg_stmt list" where
  "pgTriggerStmts t other =
     concat (map (pgDiffSourceTrigger t other) (pt_Triggers t))
     @ concat (map (pgDiffTargetTrigger t) (pt_Triggers other))"

definition PostgresTable_DiffTable_stmts :: "PostgresTable \<Rightarrow> PostgresTable \<Rightarrow> pg_stmt list" where
  "PostgresTable_DiffTable_stmts t other =
     pgColumnStmts t other @ pgConstraintStmts t other @ pgIndexStmts t other
     @ pgTriggerStmts t other"

text \<open>\<open>PostgresTable.DiffTable\<close> never returns an error.\<close>

definition PostgresTable_DiffTable ::
  "(PostgresIndex \<Rightarrow> string) \<Rightarrow> (PostgresTrigger \<Rightarrow> string) \<Rightarrow> PostgresTable \<Rightarrow> PostgresTable
   \<Rightarrow> string"
where
  "PostgresTable_DiffTable ix tg t other =
     TrimSpace (concat (map (pg_render ix tg) (PostgresTable_DiffTable_stmts t other)))"

record PostgresSchema =
  ps_Tables :: "PostgresTable list"
  ps_Views :: "PostgresView list"

definition pgDiffSourceView :: "PostgresView list \<Rightarrow> PostgresView \<Rightarrow> string" where
  "pgDiffSourceView targetViews sourceView =
     (case find (\<lambda>v. pv_Name v = pv_Name sourceView) targetViews of
        None \<Rightarrow> PostgresView_String sourceView @ nl
      | Some targetView \<Rightarrow>
          if pv_Def sourceView \<noteq> pv_Def targetView
          then ''DROP VIEW '' @ quoted (pv_Name targetView) @ '';'' @ nl
               @ PostgresView_String sourceView @ nl
          else [])"

definition pgDiffTargetView :: "PostgresView list \<Rightarrow> PostgresView \<Rightarrow> string" where
  "pgDiffTargetView sourceViews targetView =
     (if find (\<lambda>v. pv_Name v = pv_Name targetView) sourceViews = None
      then ''DROP VIEW '' @ quoted (pv_Name targetView) @ '';'' @ nl
      else [])"

definition PostgresDriver_DiffViews :: "PostgresView list \<Rightarrow> PostgresView list \<Rightarrow> string" where
  "PostgresDriver_DiffViews sourceViews targetViews =
     TrimSpace (concat (map (pgDiffSourceView targetViews) sourceViews)
                @ concat (map (pgDiffTargetView sourceViews) targetViews))"

definition pgDiffSourceTable ::
  "(PostgresIndex \<Rightarrow> string) \<Rightarrow> (PostgresTrigger \<Rightarrow> string) \<Rightarrow> PostgresTable list
   \<Rightarrow> PostgresTable \<Rightarrow> string"
where
  "pgDiffSourceTable ix tg targetTables sourceTable =
     (case find (\<lambda>t. pt_Name t = pt_Name sourceTable) targetTables of
        None \<Rightarrow> PostgresTable_String ix tg sourceTable @ nl
      | Some targetTable \<Rightarrow> PostgresTable_DiffTable ix tg sourceTable targetTable @ nl)"

definition pgDiffTargetTable :: "PostgresTable list \<Rightarrow> PostgresTable \<Rightarrow> string" where
  "pgDiffTargetTable sourceTables targetTable =
     (if find (\<lambda>t. pt_Name t = pt_Name targetTable) sourceTables = None
      then ''DROP TABLE '' @ quoted (pt_Name targetTable) @ '';'' @ nl
      else [])"

definition PostgresDriver_DiffTables ::
  "(PostgresIndex \<Rightarrow> string) \<Rightarrow> (PostgresTrigger \<Rightarrow> string) \<Rightarrow> PostgresSchema \<Rightarrow> PostgresSchema
   \<Rightarrow> string"
where
  "PostgresDriver_DiffTables ix tg source target =
     TrimSpace (concat (map (pgDiffSourceTable ix tg (ps_Tables target)) (ps_Tables source))
                @ concat (map (pgDiffTargetTable (ps_Tables source)) (ps_Tables target))
                @ PostgresDriver_DiffViews (ps_Views source) (ps_Views target) @ nl)"

definition PostgresDriver_Diff ::
  "(PostgresIndex \<Rightarrow> string) \<Rightarrow> (PostgresTrigger \<Rightarrow> string) \<Rightarrow> PostgresSchema \<Rightarrow> PostgresSchema
   \<Rightarrow> string"
where
  "PostgresDriver_Diff ix tg source target =
     TrimSpace (PostgresDriver_DiffTables ix tg source target @ nl)"

section \<open>The adapter's connections\<close>

text \<open>
  A \<open>*sql.DB\<close> is a handle (a number) into the process's set of open databases.
  \<open>sql.Open\<close> with the name of a registered driver only records the descriptor: it
  returns a new handle and no error, so \<open>NewSQLiteDriver\<close> never takes its error
  returns. What \<open>DB.Close\<close> answers is decided outside the program: \<open>close_err\<close>
  gives the error a handle's \<open>Close\<close> reports, if any. \<open>DB.Close\<close> releases the handle
  also when it reports an error.
\<close>

record sys =
  close_err :: "nat \<Rightarrow> string option"

record world =
  live :: "nat list"
  fresh :: nat

definition sql_Open :: "world \<Rightarrow> string \<Rightarrow> world \<times> (error + nat)" where
  "sql_Open w descr = (w\<lparr>live := fresh w # live w, fresh := Suc (fresh w)\<rparr>, Inr (fresh w))"

definition DB_Close :: "sys \<Rightarrow> world \<Rightarrow> nat \<Rightarrow> world \<times> error option" where
  "DB_Close env w h =
     (w\<lparr>live := removeAll h (live w)\<rparr>, map_option DriverError (close_err env h))"

record SQLLiteDriverConfig =
  SourceDatabasePath :: string
  TargetDatabasePath :: string

record SQLiteDriver =
  SourceDatabaseConnection :: nat
  TargetDatabaseConnection :: nat

definition NewSQLiteDriver :: "world \<Rightarrow> SQLLiteDriverConfig \<Rightarrow> world \<times> (error + SQLiteDriver)" where
  "NewSQLiteDriver w config =
     (case sql_Open w (SourceDatabasePath config) of
        (w1, Inl err) \<Rightarrow> (w1, Inl err)
      | (w1, Inr sourceDatabaseConnection) \<Rightarrow>
          (case sql_Open w1 (TargetDatabasePath config) of
             (w2, Inl err) \<Rightarrow> (w2, Inl err)
           | (w2, Inr targetDatabaseConnection) \<Rightarrow>
               (w2, Inr \<lparr>SourceDatabaseConnection = sourceDatabaseConnection,
                         TargetDatabaseConnection = targetDatabaseConnection\<rparr>)))"

definition Close :: "sys \<Rightarrow> world \<Rightarrow> SQLiteDriver \<Rightarrow> world \<times> error option" where
  "Close env w d =
     (case DB_Close env w (SourceDatabaseConnection d) of
        (w1, Some err) \<Rightarrow> (w1, Some err)
      | (w1, None) \<Rightarrow>
          (case DB_Close env w1 (TargetDatabaseConnection d) of
             (w2, Some err) \<Rightarrow> (w2, Some err)
           | (w2, None) \<Rightarrow> (w2, None)))"

section \<open>Well-formed schemas\<close>

text \<open>
  The engines keep the names of a schema apart: no two tables or views of a database, and
  no two columns, indexes, triggers or constraints of a table, have the same name. Every
  model the drivers read from a database is well-formed in this sense, and the differ,
  which finds objects by name, relies on it.
\<close>

definition uniqueNames :: "SQLiteTable \<Rightarrow> bool" where
  "uniqueNames t =
     (distinct (map c_Name (t_Columns t)) \<and> distinct (map i_Name (t_Indexes t))
      \<and> distinct (map tr_Name (t_Triggers t)))"

definition wellFormed :: "SQLiteSchema \<Rightarrow> bool" where
  "wellFormed s =
     (distinct (map t_Name (s_Tables s)) \<and> list_all uniqueNames (s_Tables s)
      \<and> distinct (map v_Name (s_Views s)))"


definition pgUniqueNames :: "PostgresTable \<Rightarrow> bool" where
  "pgUniqueNames t =
     (distinct (map pc_Name (pt_Columns t)) \<and> distinct (map pk_Name (pt_Constraints t))
      \<and> distinct (map pi_Name (pt_Indexes t)) \<and> distinct (map pg_Name (pt_Triggers t)))"

definition pgWellFormed :: "PostgresSchema \<Rightarrow> bool" where
  "pgWellFormed s =
     (distinct (map pt_Name (ps_Tables s)) \<and> list_all pgUniqueNames (ps_Tables s)
      \<and> distinct (map pv_Name (ps_Views s)))"

section \<open>Example schemas\<close>

text \<open>A column without constraints or default, and a table without dependent objects.\<close>

definition plainColumn :: "string \<Rightarrow> string \<Rightarrow> SQLiteColumn" where
  "plainColumn name ty =
     \<lparr>c_Name = name, c_Type = ty, c_NotNull = False, c_PrimaryKey = False,
      c_Default = \<lparr>ns_String = [], ns_Valid = False\<rparr>\<rparr>"

definition plainTable :: "string \<Rightarrow> SQLiteColumn list \<Rightarrow> SQLiteTable" where
  "plainTable name columns =
     \<lparr>t_Name = name, t_Columns = columns, t_Indexes = [], t_Triggers = [], t_ForeignKeys = []\<rparr>"

text \<open>Two new text columns in the source, one old text column in the target.\<close>

definition twoNewColumns :: SQLiteTable where
  "twoNewColumns = plainTable ''u'' [plainColumn ''a'' ''TEXT'', plainColumn ''b'' ''TEXT'']"

definition oneOldColumn :: SQLiteTable where
  "oneOldColumn = plainTable ''u'' [plainColumn ''c'' ''TEXT'']"

text \<open>Two text columns renamed at once: \<open>a1\<close> to \<open>a2\<close> and \<open>b1\<close> to \<open>b2\<close>.\<close>

definition twoTextNew :: SQLiteTable where
  "twoTextNew = plainTable ''u'' [plainColumn ''a2'' ''TEXT'', plainColumn ''b2'' ''TEXT'']"

definition twoTextOld :: SQLiteTable where
  "twoTextOld = plainTable ''u'' [plainColumn ''a1'' ''TEXT'', plainColumn ''b1'' ''TEXT'']"

text \<open>A blog schema: two tables with an index, a trigger and a foreign key, and a view.\<close>

definition blogUsers :: SQLiteTable where
  "blogUsers =
     \<lparr>t_Name = ''users'',
      t_Columns = [(plainColumn ''id'' ''INTEGER'')\<lparr>c_PrimaryKey := True\<rparr>,
                   (plainColumn ''name'' ''TEXT'')\<lparr>c_NotNull := True\<rparr>],
      t_Indexes = [\<lparr>i_Table = ''users'', i_Name = ''users_name'', i_Columns = [''name''],
                    i_Unique = True\<rparr>],
      t_Triggers = [\<lparr>tr_Name = ''users_update'',
                     tr_SQL = ''CREATE TRIGGER users_update AFTER UPDATE ON users BEGIN SELECT 1; END''\<rparr>],
      t_ForeignKeys = []\<rparr>"

definition blogPosts :: SQLiteTable where
  "blogPosts =
     \<lparr>t_Name = ''posts'',
      t_Columns = [(plainColumn ''id'' ''INTEGER'')\<lparr>c_PrimaryKey := True\<rparr>,
                   plainColumn ''user_id'' ''INTEGER'',
                   (plainColumn ''title'' ''TEXT'')\<lparr>c_NotNull := True\<rparr>],
      t_Indexes = [],
      t_Triggers = [],
      t_ForeignKeys = [\<lparr>fk_Table = ''users'', fk_From = [''user_id''], fk_To = [''id''],
                        fk_OnUpdate = ''NO ACTION'', fk_OnDelete = ''CASCADE''\<rparr>]\<rparr>"

definition blogSchema :: SQLiteSchema where
  "blogSchema =
     \<lparr>s_Tables = [blogUsers, blogPosts],
      s_Views = [\<lparr>v_Name = ''titles'', v_SQL = ''CREATE VIEW titles AS SELECT title FROM posts''\<rparr>]\<rparr>"

definition pgBlogSchema :: PostgresSchema where
  "pgBlogSchema =
     \<lparr>ps_Tables =
        [\<lparr>pt_Name = ''users'',
          pt_Columns = [\<lparr>pc_Name = ''id'', pc_Type = ''integer'', pc_NotNull = True,
                         pc_Default = \<lparr>ns_String = [], ns_Valid = False\<rparr>\<rparr>,
                        \<lparr>pc_Name = ''name'', pc_Type = ''text'', pc_NotNull = False,
                         pc_Default = \<lparr>ns_String = [], ns_Valid = False\<rparr>\<rparr>],
          pt_Indexes = [\<lparr>pi_Name = ''users_name'',
                         pi_Def = ''CREATE INDEX users_name ON users USING btree (name)''\<rparr>],
          pt_Constraints = [\<lparr>pk_Name = ''users_pkey'', pk_Type = ''p'',
                             pk_Def = ''PRIMARY KEY (id)''\<rparr>],
          pt_Triggers = []\<rparr>],
      ps_Views = [\<lparr>pv_Name = ''names'', pv_Def = ''SELECT name FROM users;''\<rparr>]\<rparr>"

text \<open>
  A users table before and after a change: \<open>name\<close> becomes \<open>full_name\<close>, \<open>email\<close> becomes
  NOT NULL, and \<open>age\<close> (with a default) and \<open>bio\<close> (without) are new.
\<close>

definition usersOld :: SQLiteTable where
  "usersOld =
     plainTable ''users''
       [(plainColumn ''id'' ''INTEGER'')\<lparr>c_PrimaryKey := True\<rparr>,
        plainColumn ''name'' ''TEXT'',
        plainColumn ''email'' ''TEXT'']"

definition usersNew :: SQLiteTable where
  "usersNew =
     (plainTable ''users''
        [(plainColumn ''id'' ''INTEGER'')\<lparr>c_PrimaryKey := True\<rparr>,
         plainColumn ''full_name'' ''TEXT'',
         (plainColumn ''email'' ''TEXT'')\<lparr>c_NotNull := True\<rparr>,
         (plainColumn ''age'' ''INTEGER'')\<lparr>c_Default := \<lparr>ns_String = ''0'', ns_Valid = True\<rparr>\<rparr>,
         plainColumn ''bio'' ''BLOB''])
     \<lparr>t_Indexes := [\<lparr>i_Table = ''users'', i_Name = ''users_email'', i_Columns = [''email''],
                     i_Unique = True\<rparr>]\<rparr>"

text \<open>The posts table before its foreign key was declared.\<close>

definition postsNoForeignKey :: SQLiteTable where
  "postsNoForeignKey = blogPosts\<lparr>t_ForeignKeys := []\<rparr>"








text \<open>A table in which two columns are renamed, as the only table of a schema, and two
  traversal orders for the rename map of its \<open>DiffTable\<close>: as inserted, and last entry first.\<close>

definition firstOrder :: "seed list" where
  "firstOrder = [0] # []"

definition secondOrder :: "seed list" where
  "secondOrder = [1] # []"

definition twoRenamedNew :: SQLiteSchema where
  "twoRenamedNew =
     \<lparr>s_Tables = [plainTable ''u'' [plainColumn ''a2'' ''TEXT'', plainColumn ''b2'' ''INTEGER'']],
      s_Views = []\<rparr>"

definition twoRenamedOld :: SQLiteSchema where
  "twoRenamedOld =
     \<lparr>s_Tables = [plainTable ''u'' [plainColumn ''a1'' ''TEXT'', plainColumn ''b1'' ''INTEGER'']],
      s_Views = []\<rparr>"

text \<open>A system in which closing the first handle reports an error.\<close>

definition closeFails :: sys where
  "closeFails = \<lparr>close_err = (\<lambda>h. if h = 0 then Some ''database is locked'' else None)\<rparr>"

definition noConnections :: world where
  "noConnections = \<lparr>live = [], fresh = 0\<rparr>"

definition exampleConfig :: SQLLiteDriverConfig where
  "exampleConfig = \<lparr>SourceDatabasePath = ''source.sqlite'', TargetDatabasePath = ''target.sqlite''\<rparr>"
text \<open>Two text columns renamed at once in a table whose column \<open>y\<close> becomes NOT NULL.\<close>

definition lostRenameNew :: SQLiteTable where
  "lostRenameNew =
     plainTable ''u'' [plainColumn ''a2'' ''TEXT'', plainColumn ''b2'' ''TEXT'',
                       (plainColumn ''y'' ''TEXT'')\<lparr>c_NotNull := True\<rparr>]"

definition lostRenameOld :: SQLiteTable where
  "lostRenameOld =
     plainTable ''u'' [plainColumn ''a1'' ''TEXT'', plainColumn ''b1'' ''TEXT'',
                       plainColumn ''y'' ''TEXT'']"

section \<open>Column classification\<close>

text \<open>
  Claim C3 (rename detection is first-fit and consumes the matched target column; a source
  column left without an unconsumed match is Added). The search of \<open>DiffColumns\<close> does not
  skip a target column that an earlier source column already matched. With the text columns
  \<open>a1\<close>, \<open>b1\<close> renamed to \<open>a2\<close>, \<open>b2\<close>, both searches find \<open>a1\<close>: the entry
  \<open>a1 \<rightarrow> b2\<close> overwrites \<open>a1 \<rightarrow> a2\<close>, \<open>b1\<close> is Removed, and \<open>a2\<close> is neither renamed nor
  added. With the source columns \<open>a\<close>, \<open>b\<close> and the single target column \<open>c\<close> the map
  ends as \<open>c \<rightarrow> b\<close> and \<open>a\<close> is not Added.
\<close>

theorem DiffColumns_rename_not_consumed:
  "DiffColumns twoTextNew twoTextOld =
     \<lparr>Added = [], Modified = [], Removed = [''b1''], Renamed = [(''a1'', ''b2'')],
      ForeignKeysChanged = False\<rparr>
   \<and> DiffTable [] twoTextNew twoTextOld =
     Inr (''ALTER TABLE '' @ quoted ''u'' @ '' RENAME COLUMN '' @ quoted ''a1'' @ '' TO ''
          @ quoted ''b2'' @ '';'' @ nl
          @ ''ALTER TABLE '' @ quoted ''u'' @ '' DROP COLUMN '' @ quoted ''b1'' @ '';'')
   \<and> DiffColumns twoNewColumns oneOldColumn =
     \<lparr>Added = [], Modified = [], Removed = [], Renamed = [(''c'', ''b'')],
      ForeignKeysChanged = False\<rparr>
   \<and> DiffTable [] twoNewColumns oneOldColumn =
     Inr (''ALTER TABLE '' @ quoted ''u'' @ '' RENAME COLUMN '' @ quoted ''c'' @ '' TO ''
          @ quoted ''b'' @ '';'')"
  by code_simp

section \<open>Helper lemmas: trimming, lookups by name\<close>


lemma trimLeading_Nil: "trimLeading encs [] = []"
  by (simp add: trimLeading.simps)

lemma trimLeading_spaces: "\<forall>c \<in> set s. asciiSpace c \<Longrightarrow> trimLeading encs s = []"
proof (induction s)
  case Nil
  show ?case by (rule trimLeading_Nil)
next
  case (Cons c cs)
  then have "leadingSpace encs (c # cs) = 1"
    by (simp add: leadingSpace_def)
  then have "trimLeading encs (c # cs) = trimLeading encs cs"
    by (subst trimLeading.simps) simp
  with Cons show ?case by simp
qed

lemma TrimSpace_spaces: "\<forall>c \<in> set s. asciiSpace c \<Longrightarrow> TrimSpace s = []"
  by (simp add: TrimSpace_def TrimLeft_def TrimRight_def trimLeading_spaces trimLeading_Nil)

lemma TrimSpace_Nil: "TrimSpace [] = []"
  by (simp add: TrimSpace_spaces)

lemma asciiSpace_nl: "c \<in> set nl \<Longrightarrow> asciiSpace c"
  by (simp add: nl_def asciiSpace_def)

lemma find_by_name:
  "distinct (map f xs) \<Longrightarrow> x \<in> set xs \<Longrightarrow> find (\<lambda>y. f y = f x) xs = Some x"
  by (induction xs) (auto simp: image_iff)

lemma foldl_unchanged: "(\<And>x. x \<in> set xs \<Longrightarrow> f d x = d) \<Longrightarrow> foldl f d xs = d"
  by (induction xs) simp_all

lemma concat_map_Nil: "(\<And>x. x \<in> set xs \<Longrightarrow> f x = []) \<Longrightarrow> concat (map f xs) = []"
  by (induction xs) simp_all

lemma diffSourceColumn_self:
  "distinct (map c_Name (t_Columns t)) \<Longrightarrow> c \<in> set (t_Columns t) \<Longrightarrow> diffSourceColumn t t d c = d"
  by (simp add: diffSourceColumn_def ColumnByName_def find_by_name)

lemma diffTargetColumn_self:
  "distinct (map c_Name (t_Columns t)) \<Longrightarrow> c \<in> set (t_Columns t) \<Longrightarrow> diffTargetColumn t d c = d"
  by (simp add: diffTargetColumn_def ColumnByName_def find_by_name)

lemma same_elements_refl: "same_elements xs xs"
  by (simp add: same_elements_def list_all_iff)

lemma SQLiteForeignKey_Equal_refl: "SQLiteForeignKey_Equal fk fk"
  by (simp add: SQLiteForeignKey_Equal_def same_elements_refl)

lemma SQLiteIndex_Equal_refl: "SQLiteIndex_Equal i i"
  by (simp add: SQLiteIndex_Equal_def same_elements_refl)

lemma foreignKeysChanged_self: "\<not> foreignKeysChanged t t"
  unfolding foreignKeysChanged_def list_ex_iff
  using SQLiteForeignKey_Equal_refl by auto

lemma DiffColumns_self:
  "distinct (map c_Name (t_Columns t)) \<Longrightarrow> DiffColumns t t = emptyDiff"
  by (simp add: DiffColumns_def Let_def foldl_unchanged diffSourceColumn_self
      diffTargetColumn_self foreignKeysChanged_self emptyDiff_def)

lemma DiffTable_self:
  "distinct (map c_Name (t_Columns t)) \<Longrightarrow> DiffTable sd t t = Inr []"
  by (simp add: DiffTable_def DiffTable_stmts_def DiffColumns_self Let_def rebuildNeeded_def
      inPlaceStmts_def emptyDiff_def render_all_def TrimSpace_Nil)

lemma DiffIndexes_self:
  "distinct (map i_Name (t_Indexes t)) \<Longrightarrow> DiffIndexes t t = []"
  by (simp add: DiffIndexes_def DiffIndexes_stmts_def render_all_def concat_map_Nil
      diffSourceIndex_def diffTargetIndex_def IndexByName_def find_by_name SQLiteIndex_Equal_refl)

lemma DiffTriggers_self:
  "distinct (map tr_Name (t_Triggers t)) \<Longrightarrow> DiffTriggers t t = []"
  by (simp add: DiffTriggers_def DiffTriggers_stmts_def render_all_def concat_map_Nil
      diffSourceTrigger_def diffTargetTrigger_def TriggerByName_def find_by_name)

lemma diffSourceTables_self:
  "distinct (map t_Name ts) \<Longrightarrow> list_all uniqueNames ts \<Longrightarrow> set ts' \<subseteq> set ts \<Longrightarrow>
   \<exists>out. diffSourceTables sds ts ts' = Inr out \<and> set out \<subseteq> set nl"
proof (induction ts' arbitrary: sds)
  case Nil
  show ?case by simp
next
  case (Cons t ts')
  from Cons.prems have t: "t \<in> set ts" and u: "uniqueNames t"
    by (auto simp: list_all_iff)
  from Cons.prems(1) t have f: "find (\<lambda>x. t_Name x = t_Name t) ts = Some t"
    by (rule find_by_name)
  from Cons.IH [of "tl sds"] Cons.prems obtain out
    where out: "diffSourceTables (tl sds) ts ts' = Inr out" "set out \<subseteq> set nl"
    by auto
  from u show ?case
    by (simp add: f out uniqueNames_def DiffTable_self DiffIndexes_self DiffTriggers_self)
qed

lemma removedTables_self: "removedTables ts ts = []"
proof -
  have "find (\<lambda>x. t_Name x = t_Name t) ts \<noteq> None" if "t \<in> set ts" for t
    using that by (auto simp: find_None_iff)
  then show ?thesis
    by (simp add: removedTables_def concat_map_Nil)
qed

lemma DiffTables_self:
  assumes "distinct (map t_Name ts)" and "list_all uniqueNames ts"
  shows "DiffTables sds ts ts = Inr []"
proof -
  from diffSourceTables_self [OF assms subset_refl, of sds] obtain out
    where out: "diffSourceTables sds ts ts = Inr out" "set out \<subseteq> set nl"
    by auto
  then have "TrimSpace out = []"
    by (intro TrimSpace_spaces) (auto dest: asciiSpace_nl)
  with out show ?thesis
    by (simp add: DiffTables_def removedTables_self)
qed

lemma DiffViews_self:
  assumes "distinct (map v_Name vs)"
  shows "DiffViews vs vs = []"
proof -
  have src: "diffSourceView vs v = nl" if "v \<in> set vs" for v
    using that assms by (simp add: diffSourceView_def find_by_name SQLiteView_Diff_def TrimSpace_Nil)
  have tgt: "diffTargetView vs v = []" if "v \<in> set vs" for v
    using that assms by (simp add: diffTargetView_def find_by_name)
  have "set (concat (map (diffSourceView vs) vs)) \<subseteq> set nl"
    using src by auto
  then have "TrimSpace (concat (map (diffSourceView vs) vs)) = []"
    by (intro TrimSpace_spaces) (auto dest: asciiSpace_nl)
  then show ?thesis
    by (simp add: DiffViews_def concat_map_Nil tgt)
qed

lemma Diff_self: "wellFormed s \<Longrightarrow> Diff sds s s = Inr []"
  by (simp add: Diff_def wellFormed_def DiffTables_self DiffViews_self TrimSpace_spaces asciiSpace_nl)


lemma pgDiffTable_self:
  assumes "pgUniqueNames t"
  shows "PostgresTable_DiffTable ix tg t t = []"
proof -
  have "pgColumnStmts t t = []"
    using assms
    by (simp add: pgColumnStmts_def pgUniqueNames_def concat_map_Nil pgDiffSourceColumn_def
        pgDiffTargetColumn_def PostgresTable_ColumnByName_def find_by_name
        PostgresColumn_HasEqualAttributes_def)
  moreover have "pgConstraintStmts t t = []"
    using assms
    by (simp add: pgConstraintStmts_def pgUniqueNames_def concat_map_Nil
        pgDiffSourceConstraint_def pgDiffTargetConstraint_def ConstraintByName_def find_by_name)
  moreover have "pgIndexStmts t t = []"
    using assms
    by (simp add: pgIndexStmts_def pgUniqueNames_def concat_map_Nil pgDiffSourceIndex_def
        pgDiffTargetIndex_def PostgresTable_IndexByName_def find_by_name)
  moreover have "pgTriggerStmts t t = []"
    using assms
    by (simp add: pgTriggerStmts_def pgUniqueNames_def concat_map_Nil pgDiffSourceTrigger_def
        pgDiffTargetTrigger_def PostgresTable_TriggerByName_def find_by_name)
  ultimately show ?thesis
    by (simp add: PostgresTable_DiffTable_def PostgresTable_DiffTable_stmts_def TrimSpace_Nil)
qed

lemma pgDiffViews_self:
  assumes "distinct (map pv_Name vs)"
  shows "PostgresDriver_DiffViews vs vs = []"
proof -
  have "pgDiffSourceView vs v = []" if "v \<in> set vs" for v
    using that assms by (simp add: pgDiffSourceView_def find_by_name)
  moreover have "pgDiffTargetView vs v = []" if "v \<in> set vs" for v
    using that assms by (simp add: pgDiffTargetView_def find_by_name)
  ultimately show ?thesis
    by (simp add: PostgresDriver_DiffViews_def concat_map_Nil TrimSpace_Nil)
qed

lemma pgDiffTables_self:
  assumes "pgWellFormed p"
  shows "PostgresDriver_DiffTables ix tg p p = []"
proof -
  have src: "pgDiffSourceTable ix tg (ps_Tables p) t = nl" if "t \<in> set (ps_Tables p)" for t
    using that assms
    by (simp add: pgDiffSourceTable_def pgWellFormed_def find_by_name list_all_iff
        pgDiffTable_self)
  have tgt: "pgDiffTargetTable (ps_Tables p) t = []" if "t \<in> set (ps_Tables p)" for t
    using that assms by (simp add: pgDiffTargetTable_def pgWellFormed_def find_by_name)
  have "set (concat (map (pgDiffSourceTable ix tg (ps_Tables p)) (ps_Tables p)) @ nl) \<subseteq> set nl"
    using src by auto
  then have "TrimSpace (concat (map (pgDiffSourceTable ix tg (ps_Tables p)) (ps_Tables p)) @ nl) = []"
    by (intro TrimSpace_spaces) (auto dest: asciiSpace_nl)
  with assms show ?thesis
    by (simp add: PostgresDriver_DiffTables_def concat_map_Nil tgt pgDiffViews_self
        pgWellFormed_def)
qed

section \<open>Diffing a schema against itself\<close>

text \<open>
  Claim C1: the diff of a schema against itself is the empty string, for \<open>SQLiteDriver.Diff\<close>
  and for \<open>PostgresDriver.Diff\<close>, whatever order the runtime traverses its maps in. The
  drivers read their models from a database, and the names of a schema read from a database
  are unique (tables and views in the schema; columns, indexes, triggers and constraints in
  each table): these are the schemas the theorem ranges over.
\<close>

theorem Diff_self_empty:
  assumes "wellFormed s" and "pgWellFormed p"
  shows "Diff sds s s = Inr [] \<and> PostgresDriver_Diff ix tg p p = []"
  using assms
  by (simp add: Diff_self PostgresDriver_Diff_def pgDiffTables_self TrimSpace_spaces
      asciiSpace_nl)

theorem Diff_self_empty_witness:
  "wellFormed blogSchema \<and> pgWellFormed pgBlogSchema
   \<and> Diff [] blogSchema blogSchema = Inr []
   \<and> PostgresDriver_Diff pi_Def pg_Def pgBlogSchema pgBlogSchema = []"
proof -
  have s: "wellFormed blogSchema"
    by code_simp
  have p: "pgWellFormed pgBlogSchema"
    by code_simp
  from Diff_self_empty [OF s p] s p show ?thesis
    by simp
qed

section \<open>Helper lemmas: maps and their traversal\<close>

lemma map_of_map_assign: "map_of (map_assign m k v) = (map_of m)(k \<mapsto> v)"
  by (induction m) (auto simp: fun_eq_iff)

lemma keys_map_assign:
  "map fst (map_assign m k v) = (if k \<in> set (map fst m) then map fst m else map fst m @ [k])"
  by (induction m) auto

lemma distinct_keys_map_assign:
  "distinct (map fst m) \<Longrightarrow> distinct (map fst (map_assign m k v))"
  by (simp add: keys_map_assign)

lemma mset_insert_at: "mset (take i ys @ x # drop i ys) = add_mset x (mset ys)"
proof -
  have "mset (take i ys) + mset (drop i ys) = mset ys"
    by (simp only: mset_append [symmetric] append_take_drop_id)
  then show ?thesis
    by simp
qed

lemma mset_go_range: "mset (go_range sd xs) = mset xs"
  by (induction xs arbitrary: sd) (simp_all add: Let_def mset_insert_at del: mset_append)

lemma set_go_range: "set (go_range sd xs) = set xs"
  using mset_go_range [of sd xs] by (metis set_mset_mset)

lemma go_range_Nil_seed: "go_range [] xs = xs"
  by (induction xs) simp_all

text \<open>What an inverted map holds: a value of the map leads back to one of its keys.\<close>

lemma invert_fold_sound:
  "map_of (foldl (\<lambda>out (k, v). map_assign out v k) out xs) v = Some k \<Longrightarrow>
   map_of out v = Some k \<or> (k, v) \<in> set xs"
proof (induction xs arbitrary: out)
  case Nil
  then show ?case by simp
next
  case (Cons x xs)
  obtain k' v' where x: "x = (k', v')" by (cases x)
  from Cons.prems have "map_of (foldl (\<lambda>out (k, v). map_assign out v k) (map_assign out v' k') xs) v = Some k"
    by (simp add: x)
  from Cons.IH [OF this] show ?case
    by (auto simp: x map_of_map_assign split: if_splits)
qed

lemma invert_fold_keeps:
  "map_of out v \<noteq> None \<Longrightarrow>
   map_of (foldl (\<lambda>out (k, v). map_assign out v k) out xs) v \<noteq> None"
proof (induction xs arbitrary: out)
  case Nil
  then show ?case by simp
next
  case (Cons x xs)
  obtain k' v' where x: "x = (k', v')" by (cases x)
  have "map_of (map_assign out v' k') v \<noteq> None"
    using Cons.prems by (simp add: map_of_map_assign)
  from Cons.IH [OF this] show ?case
    by (simp add: x)
qed

lemma invert_fold_complete:
  "(k, v) \<in> set xs \<Longrightarrow>
   map_of (foldl (\<lambda>out (k, v). map_assign out v k) out xs) v \<noteq> None"
proof (induction xs arbitrary: out)
  case Nil
  then show ?case by simp
next
  case (Cons x xs)
  obtain k' v' where x: "x = (k', v')" by (cases x)
  show ?case
  proof (cases "x = (k, v)")
    case True
    have "map_of (map_assign out v k) v \<noteq> None"
      by (simp add: map_of_map_assign)
    from invert_fold_keeps [OF this] True show ?thesis
      by simp
  next
    case False
    with Cons.prems have "(k, v) \<in> set xs" by simp
    from Cons.IH [OF this] show ?thesis
      by (simp add: x)
  qed
qed

lemma lo_Invert_sound: "map_of (lo_Invert sd m) v = Some k \<Longrightarrow> (k, v) \<in> set m"
  unfolding lo_Invert_def using invert_fold_sound [of "[]" "go_range sd m" v k]
  by (simp add: set_go_range)

lemma lo_Invert_complete: "(k, v) \<in> set m \<Longrightarrow> \<exists>k'. map_of (lo_Invert sd m) v = Some k'"
  unfolding lo_Invert_def using invert_fold_complete [of k v "go_range sd m" "[]"]
  by (simp add: set_go_range)

section \<open>Helper lemmas: the rebuild\<close>

lemma foldl_insertSelectStep:
  "foldl (insertSelectStep other m) acc cols =
     (fst acc @ map (\<lambda>c. quoted (c_Name c)) cols, snd acc @ map (selectColumn other m) cols)"
  by (induction cols arbitrary: acc) (simp_all add: insertSelectStep_def)

lemma insertSelectColumns_eq:
  "insertSelectColumns sd t other =
     (map (\<lambda>c. quoted (c_Name c)) (t_Columns t),
      map (selectColumn other (lo_Invert sd (Renamed (DiffColumns t other)))) (t_Columns t))"
  by (simp add: insertSelectColumns_def foldl_insertSelectStep)

lemma DiffTable_stmts_rebuild:
  "rebuildNeeded (DiffColumns t other) \<Longrightarrow>
   DiffTable_stmts sd t other = Inr (rebuildStmts sd t other)"
  by (simp add: DiffTable_stmts_def Let_def)

lemma DiffTable_rebuild:
  "rebuildNeeded (DiffColumns t other) \<Longrightarrow>
   DiffTable sd t other = Inr (TrimSpace (render_all (rebuildStmts sd t other)))"
  by (simp add: DiffTable_def DiffTable_stmts_rebuild)

lemma rebuildStmts_eq:
  "rebuildStmts sd t other =
     CreateTable (tempTable t)
     # InsertSelect (''_'' @ t_Name t @ ''_temp'')
         (map (\<lambda>c. quoted (c_Name c)) (t_Columns t))
         (map (selectColumn other (lo_Invert sd (Renamed (DiffColumns t other)))) (t_Columns t))
         (t_Name t)
     # DropTable (t_Name t)
     # RenameTable (''_'' @ t_Name t @ ''_temp'') (t_Name t)
     # map CreateIndex (t_Indexes t)"
  by (simp add: rebuildStmts_def insertSelectColumns_eq tempTable_def)

text \<open>The keys of the rename map stay distinct; nothing but \<open>diffSourceColumn\<close> writes it.\<close>

lemma Renamed_diffSourceColumn:
  "distinct (map fst (Renamed d)) \<Longrightarrow> distinct (map fst (Renamed (diffSourceColumn t other d c)))"
  by (simp add: diffSourceColumn_def distinct_keys_map_assign split: option.splits)

lemma Renamed_foldl_source:
  "distinct (map fst (Renamed d)) \<Longrightarrow>
   distinct (map fst (Renamed (foldl (diffSourceColumn t other) d cols)))"
  by (induction cols arbitrary: d) (simp_all add: Renamed_diffSourceColumn)

lemma Renamed_foldl_target:
  "Renamed (foldl (diffTargetColumn t) d cols) = Renamed d"
  by (induction cols arbitrary: d) (simp_all add: diffTargetColumn_def)

lemma Renamed_DiffColumns:
  "Renamed (DiffColumns t other) = Renamed (foldl (diffSourceColumn t other) emptyDiff (t_Columns t))"
  by (simp add: DiffColumns_def Let_def Renamed_foldl_target)

lemma distinct_keys_Renamed: "distinct (map fst (Renamed (DiffColumns t other)))"
  by (simp add: Renamed_DiffColumns Renamed_foldl_source emptyDiff_def)

lemma Renamed_member_iff:
  "(old, new) \<in> set (Renamed (DiffColumns t other))
   \<longleftrightarrow> map_of (Renamed (DiffColumns t other)) old = Some new"
  using distinct_keys_Renamed [of t other] by (auto dest: map_of_SomeD)

lemma go_range_complete: "mset ys = mset xs \<Longrightarrow> \<exists>sd. go_range sd xs = ys"
proof (induction xs arbitrary: ys)
  case Nil
  then show ?case by simp
next
  case (Cons x xs)
  then have "x \<in> set ys"
    by (metis list.set_intros(1) mset_eq_setD)
  then obtain as bs where ys: "ys = as @ x # bs"
    by (auto dest: split_list)
  with Cons.prems have "mset (as @ bs) = mset xs"
    by simp
  from Cons.IH [OF this] obtain sd where sd: "go_range sd xs = as @ bs" ..
  have "go_range (length as # sd) (x # xs) = ys"
    by (simp add: sd ys Let_def)
  then show ?case ..
qed

text \<open>With distinct source column names no two old names are renamed to the same new name.\<close>

lemma values_map_assign: "snd ` set (map_assign m k v) \<subseteq> insert v (snd ` set m)"
  by (induction m) auto

lemma distinct_values_map_assign:
  "distinct (map snd m) \<Longrightarrow> v \<notin> snd ` set m \<Longrightarrow> distinct (map snd (map_assign m k v))"
proof (induction m)
  case Nil
  show ?case by simp
next
  case (Cons p ps)
  show ?case
  proof (cases "fst p = k")
    case True
    with Cons.prems show ?thesis by auto
  next
    case False
    from Cons.prems have "snd p \<notin> insert v (snd ` set ps)"
      by auto
    with values_map_assign [of ps k v] have "snd p \<notin> snd ` set (map_assign ps k v)"
      by blast
    with False Cons show ?thesis by auto
  qed
qed

lemma Renamed_step_cases:
  "Renamed (diffSourceColumn t other d c) = Renamed d
   \<or> (\<exists>k. Renamed (diffSourceColumn t other d c) = map_assign (Renamed d) k (c_Name c))"
  by (auto simp: diffSourceColumn_def split: option.splits)

lemma values_foldl_source:
  "distinct (map c_Name cols) \<Longrightarrow> distinct (map snd (Renamed d)) \<Longrightarrow>
   snd ` set (Renamed d) \<inter> c_Name ` set cols = {} \<Longrightarrow>
   distinct (map snd (Renamed (foldl (diffSourceColumn t other) d cols)))"
proof (induction cols arbitrary: d)
  case Nil
  then show ?case by simp
next
  case (Cons c cols)
  define d' where "d' = diffSourceColumn t other d c"
  from Cons.prems(1) have rest: "distinct (map c_Name cols)" and fresh2: "c_Name c \<notin> c_Name ` set cols"
    by simp_all
  from Cons.prems(3) have fresh1: "c_Name c \<notin> snd ` set (Renamed d)"
    and old: "snd ` set (Renamed d) \<inter> c_Name ` set cols = {}"
    by auto
  have step: "Renamed d' = Renamed d \<or> (\<exists>k. Renamed d' = map_assign (Renamed d) k (c_Name c))"
    unfolding d'_def by (rule Renamed_step_cases)
  have vals: "snd ` set (Renamed d') \<subseteq> insert (c_Name c) (snd ` set (Renamed d))"
  proof -
    from step show ?thesis
    proof
      assume "Renamed d' = Renamed d"
      then show ?thesis by auto
    next
      assume "\<exists>k. Renamed d' = map_assign (Renamed d) k (c_Name c)"
      then obtain k where "Renamed d' = map_assign (Renamed d) k (c_Name c)" ..
      then show ?thesis
        using values_map_assign [of "Renamed d" k "c_Name c"] by simp
    qed
  qed
  have dist: "distinct (map snd (Renamed d'))"
  proof -
    from step show ?thesis
    proof
      assume "Renamed d' = Renamed d"
      with Cons.prems(2) show ?thesis by simp
    next
      assume "\<exists>k. Renamed d' = map_assign (Renamed d) k (c_Name c)"
      then obtain k where k: "Renamed d' = map_assign (Renamed d) k (c_Name c)" ..
      from Cons.prems(2) fresh1 have "distinct (map snd (map_assign (Renamed d) k (c_Name c)))"
        by (rule distinct_values_map_assign)
      with k show ?thesis by simp
    qed
  qed
  have "insert (c_Name c) (snd ` set (Renamed d)) \<inter> c_Name ` set cols = {}"
    using fresh2 old by simp
  with vals have disj: "snd ` set (Renamed d') \<inter> c_Name ` set cols = {}"
    by blast
  from Cons.IH [OF rest dist disj] show ?case
    by (simp add: d'_def)
qed

lemma distinct_values_Renamed:
  "distinct (map c_Name (t_Columns t)) \<Longrightarrow> distinct (map snd (Renamed (DiffColumns t other)))"
  by (simp add: Renamed_DiffColumns values_foldl_source emptyDiff_def)

lemma distinct_values_unique:
  "distinct (map snd m) \<Longrightarrow> (a, v) \<in> set m \<Longrightarrow> (b, v) \<in> set m \<Longrightarrow> a = b"
  by (induction m) (auto simp: image_iff)

lemma selectColumn_renamed:
  assumes "ColumnByName other (c_Name c) = None"
      and "map_of (Renamed (DiffColumns t other)) old = Some (c_Name c)"
  shows "\<exists>old'. map_of (Renamed (DiffColumns t other)) old' = Some (c_Name c)
               \<and> selectColumn other (lo_Invert sd (Renamed (DiffColumns t other))) c = quoted old'"
proof -
  from assms(2) have "(old, c_Name c) \<in> set (Renamed (DiffColumns t other))"
    by (rule map_of_SomeD)
  from lo_Invert_complete [OF this] obtain old'
    where inv: "map_of (lo_Invert sd (Renamed (DiffColumns t other))) (c_Name c) = Some old'" ..
  from lo_Invert_sound [OF inv] have "map_of (Renamed (DiffColumns t other)) old' = Some (c_Name c)"
    by (simp add: Renamed_member_iff)
  with assms(1) inv show ?thesis
    by (auto simp: selectColumn_def)
qed

lemma selectColumn_renamed_unique:
  assumes "distinct (map c_Name (t_Columns t))"
      and "ColumnByName other (c_Name c) = None"
      and "map_of (Renamed (DiffColumns t other)) old = Some (c_Name c)"
  shows "selectColumn other (lo_Invert sd (Renamed (DiffColumns t other))) c = quoted old"
proof -
  from selectColumn_renamed [OF assms(2,3)] obtain old'
    where old': "map_of (Renamed (DiffColumns t other)) old' = Some (c_Name c)"
      and sel: "selectColumn other (lo_Invert sd (Renamed (DiffColumns t other))) c = quoted old'"
    by blast
  from old' have a: "(old', c_Name c) \<in> set (Renamed (DiffColumns t other))"
    by (rule map_of_SomeD)
  from assms(3) have b: "(old, c_Name c) \<in> set (Renamed (DiffColumns t other))"
    by (rule map_of_SomeD)
  from distinct_values_Renamed [OF assms(1)] a b have "old' = old"
    by (rule distinct_values_unique)
  with sel show ?thesis by simp
qed

lemma selectColumn_not_renamed:
  assumes "ColumnByName other (c_Name c) = None"
      and "\<forall>old. map_of (Renamed (DiffColumns t other)) old \<noteq> Some (c_Name c)"
  shows "selectColumn other (lo_Invert sd (Renamed (DiffColumns t other))) c =
           (if ns_Valid (c_Default c) then ns_String (c_Default c) else ''NULL'')"
proof -
  have "map_of (lo_Invert sd (Renamed (DiffColumns t other))) (c_Name c) = None"
  proof (rule ccontr)
    assume "map_of (lo_Invert sd (Renamed (DiffColumns t other))) (c_Name c) \<noteq> None"
    then obtain old where "map_of (lo_Invert sd (Renamed (DiffColumns t other))) (c_Name c) = Some old"
      by auto
    from lo_Invert_sound [OF this] assms(2) show False
      by (simp add: Renamed_member_iff)
  qed
  with assms(1) show ?thesis
    by (simp add: selectColumn_def)
qed

lemma rebuildNeeded_iff:
  "rebuildNeeded d \<longleftrightarrow> Modified d \<noteq> [] \<or> ForeignKeysChanged d"
  by (simp add: rebuildNeeded_def)

section \<open>The rebuild protocol\<close>

text \<open>
  The select expressions, read off the rename map that \<open>DiffColumns\<close> returns: the
  \<open>i\<close>-th expression is the quoted name of the \<open>i\<close>-th source column if the target has a
  column of that name; else the quoted old name if the returned map sends an old name to
  the column (the one old name, when the source column names are distinct); else the
  column's default if it declares one; else \<open>NULL\<close>.
\<close>

lemma select_expressions_by_returned_map:
  assumes "Modified (DiffColumns t other) \<noteq> [] \<or> ForeignKeysChanged (DiffColumns t other)"
      and "i < length (t_Columns t)"
  shows "DiffTable sd t other =
           Inr (TrimSpace (render_all
             (CreateTable (tempTable t)
              # InsertSelect (''_'' @ t_Name t @ ''_temp'')
                  (fst (insertSelectColumns sd t other)) (snd (insertSelectColumns sd t other))
                  (t_Name t)
              # DropTable (t_Name t)
              # RenameTable (''_'' @ t_Name t @ ''_temp'') (t_Name t)
              # map CreateIndex (t_Indexes t))))
         \<and> length (snd (insertSelectColumns sd t other)) = length (t_Columns t)
         \<and> fst (insertSelectColumns sd t other) ! i = quoted (c_Name (t_Columns t ! i))
         \<and> (ColumnByName other (c_Name (t_Columns t ! i)) \<noteq> None \<longrightarrow>
              snd (insertSelectColumns sd t other) ! i = quoted (c_Name (t_Columns t ! i)))
         \<and> (ColumnByName other (c_Name (t_Columns t ! i)) = None
              \<and> (\<exists>old. map_of (Renamed (DiffColumns t other)) old = Some (c_Name (t_Columns t ! i)))
              \<longrightarrow> (\<exists>old. map_of (Renamed (DiffColumns t other)) old = Some (c_Name (t_Columns t ! i))
                        \<and> snd (insertSelectColumns sd t other) ! i = quoted old))
         \<and> (distinct (map c_Name (t_Columns t))
              \<and> ColumnByName other (c_Name (t_Columns t ! i)) = None \<longrightarrow>
              (\<forall>old. map_of (Renamed (DiffColumns t other)) old = Some (c_Name (t_Columns t ! i))
                 \<longrightarrow> snd (insertSelectColumns sd t other) ! i = quoted old))
         \<and> (ColumnByName other (c_Name (t_Columns t ! i)) = None
              \<and> (\<forall>old. map_of (Renamed (DiffColumns t other)) old \<noteq> Some (c_Name (t_Columns t ! i)))
              \<and> ns_Valid (c_Default (t_Columns t ! i)) \<longrightarrow>
              snd (insertSelectColumns sd t other) ! i = ns_String (c_Default (t_Columns t ! i)))
         \<and> (ColumnByName other (c_Name (t_Columns t ! i)) = None
              \<and> (\<forall>old. map_of (Renamed (DiffColumns t other)) old \<noteq> Some (c_Name (t_Columns t ! i)))
              \<and> \<not> ns_Valid (c_Default (t_Columns t ! i)) \<longrightarrow>
              snd (insertSelectColumns sd t other) ! i = ''NULL'')"
proof -
  let ?c = "t_Columns t ! i"
  let ?sel = "snd (insertSelectColumns sd t other)"
  from assms(1) have "rebuildNeeded (DiffColumns t other)"
    by (simp add: rebuildNeeded_iff)
  then have out: "DiffTable sd t other = Inr (TrimSpace (render_all (rebuildStmts sd t other)))"
    by (rule DiffTable_rebuild)
  have sel: "?sel ! i = selectColumn other (lo_Invert sd (Renamed (DiffColumns t other))) ?c"
    using assms(2) by (simp add: insertSelectColumns_eq)
  have c1: "DiffTable sd t other =
           Inr (TrimSpace (render_all
             (CreateTable (tempTable t)
              # InsertSelect (''_'' @ t_Name t @ ''_temp'')
                  (fst (insertSelectColumns sd t other)) ?sel (t_Name t)
              # DropTable (t_Name t)
              # RenameTable (''_'' @ t_Name t @ ''_temp'') (t_Name t)
              # map CreateIndex (t_Indexes t))))"
    by (simp add: out rebuildStmts_eq insertSelectColumns_eq)
  have c2: "length ?sel = length (t_Columns t)"
    by (simp add: insertSelectColumns_eq)
  have c3: "fst (insertSelectColumns sd t other) ! i = quoted (c_Name ?c)"
    using assms(2) by (simp add: insertSelectColumns_eq)
  have c4: "ColumnByName other (c_Name ?c) \<noteq> None \<longrightarrow> ?sel ! i = quoted (c_Name ?c)"
    by (simp add: sel selectColumn_def)
  have c5: "ColumnByName other (c_Name ?c) = None
              \<and> (\<exists>old. map_of (Renamed (DiffColumns t other)) old = Some (c_Name ?c))
            \<longrightarrow> (\<exists>old. map_of (Renamed (DiffColumns t other)) old = Some (c_Name ?c)
                      \<and> ?sel ! i = quoted old)"
    unfolding sel using selectColumn_renamed [of other ?c t _ sd] by blast
  have c6: "distinct (map c_Name (t_Columns t)) \<and> ColumnByName other (c_Name ?c) = None \<longrightarrow>
              (\<forall>old. map_of (Renamed (DiffColumns t other)) old = Some (c_Name ?c)
                 \<longrightarrow> ?sel ! i = quoted old)"
    unfolding sel using selectColumn_renamed_unique [of t other ?c _ sd] by blast
  have c7: "ColumnByName other (c_Name ?c) = None
              \<and> (\<forall>old. map_of (Renamed (DiffColumns t other)) old \<noteq> Some (c_Name ?c))
              \<and> ns_Valid (c_Default ?c) \<longrightarrow>
              ?sel ! i = ns_String (c_Default ?c)"
    unfolding sel using selectColumn_not_renamed [of other ?c t sd] by simp
  have c8: "ColumnByName other (c_Name ?c) = None
              \<and> (\<forall>old. map_of (Renamed (DiffColumns t other)) old \<noteq> Some (c_Name ?c))
              \<and> \<not> ns_Valid (c_Default ?c) \<longrightarrow>
              ?sel ! i = ''NULL''"
    unfolding sel using selectColumn_not_renamed [of other ?c t sd] by simp
  from c1 c2 c3 c4 c5 c6 c7 c8 show ?thesis
    by (intro conjI)
qed

text \<open>The text of a rebuild, statement by statement.\<close>

lemma rebuild_script:
  \<open>render_all (rebuildStmts sd t other) =
     ''CREATE TABLE "_'' @ t_Name t @ ''_temp" (\<newline>''
     @ Join (map (\<lambda>column. [CHR 0x09] @ SQLiteColumn_String column) (t_Columns t)
             @ map (\<lambda>fk. [CHR 0x09] @ SQLiteForeignKey_String fk) (t_ForeignKeys t))
            '',\<newline>''
     @ ''\<newline>);\<newline>''
     @ ''INSERT INTO "_'' @ t_Name t @ ''_temp" (''
     @ Join (map (\<lambda>c. ''"'' @ c_Name c @ ''"'') (t_Columns t)) '', ''
     @ '') SELECT '' @ Join (snd (insertSelectColumns sd t other)) '', ''
     @ '' FROM "'' @ t_Name t @ ''";\<newline>''
     @ ''DROP TABLE "'' @ t_Name t @ ''";\<newline>''
     @ ''ALTER TABLE "_'' @ t_Name t @ ''_temp" RENAME TO "'' @ t_Name t @ ''";\<newline>''
     @ concat (map (\<lambda>idx. SQLiteIndex_String idx @ ''\<newline>'') (t_Indexes t))\<close>
  by (simp add: render_all_def rebuildStmts_eq StringCreateTable_def tempTable_def quoted_def
      dq_def nl_def tab_def Let_def comp_def insertSelectColumns_eq)

text \<open>
  Claim C6: in every emitted rebuild the column list of the INSERT statement is the list of
  the quoted names of the source table's columns, in declared order, joined by commas. The
  shadow table is the source table with only the name changed and its CREATE TABLE
  statement declares the same columns in the same order, so the INSERT list names exactly
  the shadow table's columns and is a permutation of them.
\<close>

theorem rebuild_insert_column_list:
  assumes "Modified (DiffColumns t other) \<noteq> [] \<or> ForeignKeysChanged (DiffColumns t other)"
  shows \<open>DiffTable sd t other =
           Inr (TrimSpace
             (''CREATE TABLE "_'' @ t_Name t @ ''_temp" (\<newline>''
              @ Join (map (\<lambda>column. [CHR 0x09] @ SQLiteColumn_String column) (t_Columns t)
                      @ map (\<lambda>fk. [CHR 0x09] @ SQLiteForeignKey_String fk) (t_ForeignKeys t))
                     '',\<newline>''
              @ ''\<newline>);\<newline>''
              @ ''INSERT INTO "_'' @ t_Name t @ ''_temp" (''
              @ Join (map (\<lambda>c. ''"'' @ c_Name c @ ''"'') (t_Columns t)) '', ''
              @ '') SELECT '' @ Join (snd (insertSelectColumns sd t other)) '', ''
              @ '' FROM "'' @ t_Name t @ ''";\<newline>''
              @ ''DROP TABLE "'' @ t_Name t @ ''";\<newline>''
              @ ''ALTER TABLE "_'' @ t_Name t @ ''_temp" RENAME TO "'' @ t_Name t @ ''";\<newline>''
              @ concat (map (\<lambda>idx. SQLiteIndex_String idx @ ''\<newline>'') (t_Indexes t))))
         \<and> fst (insertSelectColumns sd t other) = map (\<lambda>c. ''"'' @ c_Name c @ ''"'') (t_Columns t)
         \<and> tempTable t = t\<lparr>t_Name := ''_'' @ t_Name t @ ''_temp''\<rparr>
         \<and> t_Columns (tempTable t) = t_Columns t
         \<and> mset (fst (insertSelectColumns sd t other)) =
             mset (map (\<lambda>c. ''"'' @ c_Name c @ ''"'') (t_Columns (tempTable t)))\<close>
proof -
  from assms have "rebuildNeeded (DiffColumns t other)"
    by (simp add: rebuildNeeded_iff)
  then have "DiffTable sd t other = Inr (TrimSpace (render_all (rebuildStmts sd t other)))"
    by (rule DiffTable_rebuild)
  then show ?thesis
    by (simp add: rebuild_script insertSelectColumns_eq tempTable_def quoted_def dq_def)
qed

theorem rebuild_insert_column_list_witness:
  \<open>Modified (DiffColumns usersNew usersOld) = [''email'']
   \<and> ForeignKeysChanged (DiffColumns usersNew usersOld) = False
   \<and> map c_Name (t_Columns usersNew) = [''id'', ''full_name'', ''email'', ''age'', ''bio'']
   \<and> DiffTable [] usersNew usersOld =
       Inr (''CREATE TABLE "_users_temp" (\<newline>''
            @ [CHR 0x09] @ ''"id" INTEGER PRIMARY KEY,\<newline>''
            @ [CHR 0x09] @ ''"full_name" TEXT,\<newline>''
            @ [CHR 0x09] @ ''"email" TEXT NOT NULL,\<newline>''
            @ [CHR 0x09] @ ''"age" INTEGER DEFAULT 0,\<newline>''
            @ [CHR 0x09] @ ''"bio" BLOB\<newline>''
            @ '');\<newline>''
            @ ''INSERT INTO "_users_temp" ("id", "full_name", "email", "age", "bio") ''
            @ ''SELECT "id", "name", "email", 0, NULL FROM "users";\<newline>''
            @ ''DROP TABLE "users";\<newline>''
            @ ''ALTER TABLE "_users_temp" RENAME TO "users";\<newline>''
            @ ''CREATE UNIQUE INDEX "users_email" ON "users" ("email");'')\<close>
proof -
  have m: "Modified (DiffColumns usersNew usersOld) = [''email'']"
    and f: "ForeignKeysChanged (DiffColumns usersNew usersOld) = False"
    and c: "map c_Name (t_Columns usersNew) = [''id'', ''full_name'', ''email'', ''age'', ''bio'']"
    by code_simp+
  from m have h: "Modified (DiffColumns usersNew usersOld) \<noteq> []
                  \<or> ForeignKeysChanged (DiffColumns usersNew usersOld)"
    by simp
  note script = rebuild_insert_column_list [OF h, of "[]", THEN conjunct1]
  have \<open>DiffTable [] usersNew usersOld =
       Inr (''CREATE TABLE "_users_temp" (\<newline>''
            @ [CHR 0x09] @ ''"id" INTEGER PRIMARY KEY,\<newline>''
            @ [CHR 0x09] @ ''"full_name" TEXT,\<newline>''
            @ [CHR 0x09] @ ''"email" TEXT NOT NULL,\<newline>''
            @ [CHR 0x09] @ ''"age" INTEGER DEFAULT 0,\<newline>''
            @ [CHR 0x09] @ ''"bio" BLOB\<newline>''
            @ '');\<newline>''
            @ ''INSERT INTO "_users_temp" ("id", "full_name", "email", "age", "bio") ''
            @ ''SELECT "id", "name", "email", 0, NULL FROM "users";\<newline>''
            @ ''DROP TABLE "users";\<newline>''
            @ ''ALTER TABLE "_users_temp" RENAME TO "users";\<newline>''
            @ ''CREATE UNIQUE INDEX "users_email" ON "users" ("email");'')\<close>
    by (simp only: script) code_simp
  with m f c show ?thesis
    by (intro conjI)
qed

text \<open>
  Claim C2 (in the INSERT ... SELECT of a rebuild, the expression for a source column that
  took part in a rename is the quoted old name). The source columns \<open>a2\<close> and \<open>b2\<close> are
  both matched as renames of the target column \<open>a1\<close>, because the search does not skip a
  target column already matched (the defect of claim C3); the entry for \<open>a2\<close> is
  overwritten, and the rebuild that the NOT NULL on \<open>y\<close> triggers fills \<open>a2\<close> with NULL
  and \<open>b2\<close> from \<open>a1\<close>.
\<close>

theorem rebuild_selects_NULL_for_renamed_column:
  \<open>findRenamed lostRenameNew lostRenameOld (plainColumn ''a2'' ''TEXT'') =
     Some (plainColumn ''a1'' ''TEXT'')
   \<and> findRenamed lostRenameNew lostRenameOld (plainColumn ''b2'' ''TEXT'') =
     Some (plainColumn ''a1'' ''TEXT'')
   \<and> DiffColumns lostRenameNew lostRenameOld =
     \<lparr>Added = [], Modified = [''y''], Removed = [''b1''], Renamed = [(''a1'', ''b2'')],
      ForeignKeysChanged = False\<rparr>
   \<and> DiffTable [] lostRenameNew lostRenameOld =
     Inr (''CREATE TABLE "_u_temp" (\<newline>''
          @ [CHR 0x09] @ ''"a2" TEXT,\<newline>''
          @ [CHR 0x09] @ ''"b2" TEXT,\<newline>''
          @ [CHR 0x09] @ ''"y" TEXT NOT NULL\<newline>''
          @ '');\<newline>''
          @ ''INSERT INTO "_u_temp" ("a2", "b2", "y") SELECT NULL, "a1", "y" FROM "u";\<newline>''
          @ ''DROP TABLE "u";\<newline>''
          @ ''ALTER TABLE "_u_temp" RENAME TO "u";'')\<close>
  by code_simp

section \<open>Foreign keys\<close>

lemma same_elements_iff:
  assumes "length xs = length ys"
  shows "same_elements xs ys \<longleftrightarrow> xs = ys"
proof
  assume "same_elements xs ys"
  then have "\<And>i. i < length xs \<Longrightarrow> xs ! i = ys ! i"
    by (simp add: same_elements_def list_all_iff)
  with assms show "xs = ys"
    by (rule nth_equalityI)
next
  assume "xs = ys"
  then show "same_elements xs ys"
    by (simp add: same_elements_refl)
qed

lemma SQLiteForeignKey_Equal_iff: "SQLiteForeignKey_Equal fk other \<longleftrightarrow> fk = other"
proof (cases "length (fk_From fk) = length (fk_From other) \<and> length (fk_To fk) = length (fk_To other)")
  case True
  then show ?thesis
    by (auto simp: SQLiteForeignKey_Equal_def same_elements_iff intro: SQLiteForeignKey.equality)
next
  case False
  then show ?thesis
    by (auto simp: SQLiteForeignKey_Equal_def)
qed

lemma foreignKeysChanged_iff:
  "foreignKeysChanged t other \<longleftrightarrow>
     length (t_ForeignKeys t) \<noteq> length (t_ForeignKeys other)
     \<or> (\<exists>sfk \<in> set (t_ForeignKeys t). sfk \<notin> set (t_ForeignKeys other))"
  by (auto simp: foreignKeysChanged_def list_ex_iff SQLiteForeignKey_Equal_iff)

lemma ForeignKeysChanged_DiffColumns:
  "ForeignKeysChanged (DiffColumns t other) = foreignKeysChanged t other"
  by (simp add: DiffColumns_def Let_def)

text \<open>
  Claim C5: \<open>Equal\<close> on foreign keys is structural equality, and whenever the source and
  target lists of foreign keys differ in length, or some source foreign key equals no target
  foreign key, \<open>DiffTable\<close> emits the rebuild, whatever the classification of the columns:
  the CREATE TABLE of the shadow table with the source's columns and FOREIGN KEY clauses,
  the INSERT ... SELECT, the DROP TABLE, the RENAME TO and the source's indexes.
\<close>

theorem foreign_key_change_forces_rebuild:
  assumes "length (t_ForeignKeys t) \<noteq> length (t_ForeignKeys other)
           \<or> (\<exists>sfk \<in> set (t_ForeignKeys t).
                 \<forall>fk \<in> set (t_ForeignKeys other). \<not> SQLiteForeignKey_Equal fk sfk)"
  shows \<open>ForeignKeysChanged (DiffColumns t other)
         \<and> (\<forall>fk sfk. SQLiteForeignKey_Equal fk sfk \<longleftrightarrow> fk = sfk)
         \<and> DiffTable sd t other =
           Inr (TrimSpace
             (''CREATE TABLE "_'' @ t_Name t @ ''_temp" (\<newline>''
              @ Join (map (\<lambda>column. [CHR 0x09] @ SQLiteColumn_String column) (t_Columns t)
                      @ map (\<lambda>fk. [CHR 0x09] @ SQLiteForeignKey_String fk) (t_ForeignKeys t))
                     '',\<newline>''
              @ ''\<newline>);\<newline>''
              @ ''INSERT INTO "_'' @ t_Name t @ ''_temp" (''
              @ Join (map (\<lambda>c. ''"'' @ c_Name c @ ''"'') (t_Columns t)) '', ''
              @ '') SELECT '' @ Join (snd (insertSelectColumns sd t other)) '', ''
              @ '' FROM "'' @ t_Name t @ ''";\<newline>''
              @ ''DROP TABLE "'' @ t_Name t @ ''";\<newline>''
              @ ''ALTER TABLE "_'' @ t_Name t @ ''_temp" RENAME TO "'' @ t_Name t @ ''";\<newline>''
              @ concat (map (\<lambda>idx. SQLiteIndex_String idx @ ''\<newline>'') (t_Indexes t))))\<close>
proof -
  from assms have changed: "ForeignKeysChanged (DiffColumns t other)"
    unfolding ForeignKeysChanged_DiffColumns foreignKeysChanged_iff SQLiteForeignKey_Equal_iff
    by blast
  then have "rebuildNeeded (DiffColumns t other)"
    by (simp add: rebuildNeeded_iff)
  then have "DiffTable sd t other = Inr (TrimSpace (render_all (rebuildStmts sd t other)))"
    by (rule DiffTable_rebuild)
  with changed show ?thesis
    by (simp add: rebuild_script SQLiteForeignKey_Equal_iff)
qed

theorem foreign_key_change_forces_rebuild_witness:
  \<open>length (t_ForeignKeys blogPosts) = 1 \<and> length (t_ForeignKeys postsNoForeignKey) = 0
   \<and> Modified (DiffColumns blogPosts postsNoForeignKey) = []
   \<and> ForeignKeysChanged (DiffColumns blogPosts postsNoForeignKey)
   \<and> DiffTable [] blogPosts postsNoForeignKey =
       Inr (''CREATE TABLE "_posts_temp" (\<newline>''
            @ [CHR 0x09] @ ''"id" INTEGER PRIMARY KEY,\<newline>''
            @ [CHR 0x09] @ ''"user_id" INTEGER,\<newline>''
            @ [CHR 0x09] @ ''"title" TEXT NOT NULL,\<newline>''
            @ [CHR 0x09] @ ''FOREIGN KEY ("user_id") REFERENCES "users" ("id") ON DELETE CASCADE\<newline>''
            @ '');\<newline>''
            @ ''INSERT INTO "_posts_temp" ("id", "user_id", "title") ''
            @ ''SELECT "id", "user_id", "title" FROM "posts";\<newline>''
            @ ''DROP TABLE "posts";\<newline>''
            @ ''ALTER TABLE "_posts_temp" RENAME TO "posts";'')\<close>
proof -
  have l: "length (t_ForeignKeys blogPosts) = 1" "length (t_ForeignKeys postsNoForeignKey) = 0"
    by code_simp+
  then have h: "length (t_ForeignKeys blogPosts) \<noteq> length (t_ForeignKeys postsNoForeignKey)
           \<or> (\<exists>sfk \<in> set (t_ForeignKeys blogPosts).
                 \<forall>fk \<in> set (t_ForeignKeys postsNoForeignKey). \<not> SQLiteForeignKey_Equal fk sfk)"
    by simp
  have m: "Modified (DiffColumns blogPosts postsNoForeignKey) = []"
    by code_simp
  note changed = foreign_key_change_forces_rebuild [OF h, of "[]", THEN conjunct1]
  note script = foreign_key_change_forces_rebuild [OF h, of "[]", THEN conjunct2, THEN conjunct2]
  have \<open>DiffTable [] blogPosts postsNoForeignKey =
       Inr (''CREATE TABLE "_posts_temp" (\<newline>''
            @ [CHR 0x09] @ ''"id" INTEGER PRIMARY KEY,\<newline>''
            @ [CHR 0x09] @ ''"user_id" INTEGER,\<newline>''
            @ [CHR 0x09] @ ''"title" TEXT NOT NULL,\<newline>''
            @ [CHR 0x09] @ ''FOREIGN KEY ("user_id") REFERENCES "users" ("id") ON DELETE CASCADE\<newline>''
            @ '');\<newline>''
            @ ''INSERT INTO "_posts_temp" ("id", "user_id", "title") ''
            @ ''SELECT "id", "user_id", "title" FROM "posts";\<newline>''
            @ ''DROP TABLE "posts";\<newline>''
            @ ''ALTER TABLE "_posts_temp" RENAME TO "posts";'')\<close>
    by (simp only: script) code_simp
  with l m changed show ?thesis
    by (intro conjI)
qed

section \<open>Rebuild and in-place alteration exclude each other\<close>

lemma addColumnStmts_alter:
  "addColumnStmts t names = Inr ss \<Longrightarrow> \<forall>s \<in> set ss. isColumnAlter s"
proof (induction names arbitrary: ss)
  case Nil
  then show ?case by simp
next
  case (Cons n names)
  then show ?case
    by (auto split: option.splits sum.splits)
qed

lemma inPlaceStmts_alter:
  "inPlaceStmts sd t d = Inr ss \<Longrightarrow> \<forall>s \<in> set ss. isColumnAlter s"
  using addColumnStmts_alter [of t "Added d"]
  by (auto simp: inPlaceStmts_def split: sum.splits)

lemma rebuildStmts_no_alter: "\<forall>s \<in> set (rebuildStmts sd t other). \<not> isColumnAlter s"
  by (auto simp: rebuildStmts_eq)

lemma DiffIndexes_stmts_no_alter: "\<forall>s \<in> set (DiffIndexes_stmts t other). \<not> isColumnAlter s"
  by (auto simp: DiffIndexes_stmts_def diffSourceIndex_def diffTargetIndex_def
      split: option.splits if_splits)

lemma DiffTriggers_stmts_no_alter: "\<forall>s \<in> set (DiffTriggers_stmts t other). \<not> isColumnAlter s"
  by (auto simp: DiffTriggers_stmts_def diffSourceTrigger_def diffTargetTrigger_def
      split: option.splits if_splits)

text \<open>
  Claim C10: when the rebuild is triggered (a column is Modified or the foreign keys
  changed), the statements \<open>DiffTable\<close> emits for the table are those of the rebuild and
  none of them is an ALTER TABLE ... ADD COLUMN, DROP COLUMN or RENAME COLUMN; the index and
  trigger passes never emit one either. Otherwise every statement of \<open>DiffTable\<close> is such a
  column alteration.
\<close>

theorem rebuild_excludes_column_alterations:
  "(Modified (DiffColumns t other) \<noteq> [] \<or> ForeignKeysChanged (DiffColumns t other) \<longrightarrow>
      DiffTable_stmts sd t other = Inr (rebuildStmts sd t other)
      \<and> DiffTable sd t other = Inr (TrimSpace (render_all (rebuildStmts sd t other)))
      \<and> (\<forall>s \<in> set (rebuildStmts sd t other). \<not> isColumnAlter s))
   \<and> (\<forall>s \<in> set (DiffIndexes_stmts t other @ DiffTriggers_stmts t other). \<not> isColumnAlter s)
   \<and> (\<not> (Modified (DiffColumns t other) \<noteq> [] \<or> ForeignKeysChanged (DiffColumns t other)) \<longrightarrow>
        (\<forall>ss. DiffTable_stmts sd t other = Inr ss \<longrightarrow> (\<forall>s \<in> set ss. isColumnAlter s)))"
proof (intro conjI impI allI)
  assume "Modified (DiffColumns t other) \<noteq> [] \<or> ForeignKeysChanged (DiffColumns t other)"
  then have r: "rebuildNeeded (DiffColumns t other)"
    by (simp add: rebuildNeeded_iff)
  from r show "DiffTable_stmts sd t other = Inr (rebuildStmts sd t other)"
    by (rule DiffTable_stmts_rebuild)
  from r show "DiffTable sd t other = Inr (TrimSpace (render_all (rebuildStmts sd t other)))"
    by (rule DiffTable_rebuild)
  show "\<forall>s \<in> set (rebuildStmts sd t other). \<not> isColumnAlter s"
    by (rule rebuildStmts_no_alter)
next
  show "\<forall>s \<in> set (DiffIndexes_stmts t other @ DiffTriggers_stmts t other). \<not> isColumnAlter s"
    using DiffIndexes_stmts_no_alter [of t other] DiffTriggers_stmts_no_alter [of t other]
    by auto
next
  fix ss
  assume "\<not> (Modified (DiffColumns t other) \<noteq> [] \<or> ForeignKeysChanged (DiffColumns t other))"
    and ss: "DiffTable_stmts sd t other = Inr ss"
  then have "\<not> rebuildNeeded (DiffColumns t other)"
    by (simp add: rebuildNeeded_iff)
  with ss have "inPlaceStmts sd t (DiffColumns t other) = Inr ss"
    by (simp add: DiffTable_stmts_def Let_def)
  then show "\<forall>s \<in> set ss. isColumnAlter s"
    by (rule inPlaceStmts_alter)
qed

theorem rebuild_excludes_column_alterations_witness:
  "Modified (DiffColumns usersNew usersOld) = [''email'']
   \<and> Added (DiffColumns usersNew usersOld) = [''age'', ''bio'']
   \<and> Renamed (DiffColumns usersNew usersOld) = [(''name'', ''full_name'')]
   \<and> DiffTable_stmts [] usersNew usersOld = Inr (rebuildStmts [] usersNew usersOld)
   \<and> list_all (\<lambda>s. \<not> isColumnAlter s) (rebuildStmts [] usersNew usersOld)
   \<and> length (rebuildStmts [] usersNew usersOld) = 5
   \<and> Modified (DiffColumns twoNewColumns oneOldColumn) = []
   \<and> ForeignKeysChanged (DiffColumns twoNewColumns oneOldColumn) = False
   \<and> DiffTable_stmts [] twoNewColumns oneOldColumn = Inr [RenameColumn ''u'' ''c'' ''b'']
   \<and> list_all isColumnAlter [RenameColumn ''u'' ''c'' ''b'']"
proof -
  have m: "Modified (DiffColumns usersNew usersOld) = [''email'']"
    and a: "Added (DiffColumns usersNew usersOld) = [''age'', ''bio'']"
    and r: "Renamed (DiffColumns usersNew usersOld) = [(''name'', ''full_name'')]"
    and n: "length (rebuildStmts [] usersNew usersOld) = 5"
    by code_simp+
  have m': "Modified (DiffColumns twoNewColumns oneOldColumn) = []"
    and f': "ForeignKeysChanged (DiffColumns twoNewColumns oneOldColumn) = False"
    and s': "DiffTable_stmts [] twoNewColumns oneOldColumn = Inr [RenameColumn ''u'' ''c'' ''b'']"
    by code_simp+
  from m have h: "Modified (DiffColumns usersNew usersOld) \<noteq> []
                  \<or> ForeignKeysChanged (DiffColumns usersNew usersOld)"
    by simp
  from m' f' have h': "\<not> (Modified (DiffColumns twoNewColumns oneOldColumn) \<noteq> []
                  \<or> ForeignKeysChanged (DiffColumns twoNewColumns oneOldColumn))"
    by simp
  from rebuild_excludes_column_alterations [of usersNew usersOld "[]"] h
  have 1: "DiffTable_stmts [] usersNew usersOld = Inr (rebuildStmts [] usersNew usersOld)"
    and 2: "list_all (\<lambda>s. \<not> isColumnAlter s) (rebuildStmts [] usersNew usersOld)"
    by (simp_all add: list_all_iff)
  from rebuild_excludes_column_alterations [of twoNewColumns oneOldColumn "[]"] h' s'
  have 3: "list_all isColumnAlter [RenameColumn ''u'' ''c'' ''b'']"
    by (simp add: list_all_iff)
  from m a r n m' f' s' 1 2 3 show ?thesis
    by (intro conjI)
qed

section \<open>Helper lemmas: what the classification loops keep\<close>




















section \<open>Type changes\<close>









section \<open>PostgreSQL: every column difference is an in-place alteration\<close>










section \<open>Determinism\<close>

text \<open>
  Claim C8 (two evaluations of \<open>Diff\<close> on the same models give the same string, also with
  two or more renamed columns). \<open>DiffTable\<close> writes the RENAME COLUMN statements while
  ranging over the rename map, and Go leaves the order of that traversal open: with two
  renamed columns the two possible orders give two different scripts.
\<close>

theorem Diff_depends_on_traversal_order:
  "Diff firstOrder twoRenamedNew twoRenamedOld =
     Inr (''ALTER TABLE '' @ quoted ''u'' @ '' RENAME COLUMN '' @ quoted ''a1'' @ '' TO ''
          @ quoted ''a2'' @ '';'' @ nl
          @ ''ALTER TABLE '' @ quoted ''u'' @ '' RENAME COLUMN '' @ quoted ''b1'' @ '' TO ''
          @ quoted ''b2'' @ '';'')
   \<and> Diff secondOrder twoRenamedNew twoRenamedOld =
     Inr (''ALTER TABLE '' @ quoted ''u'' @ '' RENAME COLUMN '' @ quoted ''b1'' @ '' TO ''
          @ quoted ''b2'' @ '';'' @ nl
          @ ''ALTER TABLE '' @ quoted ''u'' @ '' RENAME COLUMN '' @ quoted ''a1'' @ '' TO ''
          @ quoted ''a2'' @ '';'')
   \<and> Diff firstOrder twoRenamedNew twoRenamedOld \<noteq> Diff secondOrder twoRenamedNew twoRenamedOld"
  by code_simp

section \<open>Releasing the connections\<close>

lemma Close_after_error:
  "close_err env (SourceDatabaseConnection d) = Some msg \<Longrightarrow>
   Close env w d = (w\<lparr>live := removeAll (SourceDatabaseConnection d) (live w)\<rparr>,
                    Some (DriverError msg))"
  by (simp add: Close_def DB_Close_def)

lemma Close_without_error:
  "close_err env (SourceDatabaseConnection d) = None \<Longrightarrow>
   live (fst (Close env w d)) =
     removeAll (TargetDatabaseConnection d) (removeAll (SourceDatabaseConnection d) (live w))"
  by (simp add: Close_def DB_Close_def split: option.splits)

text \<open>
  Claim C9 (\<open>Close\<close> releases both connections on every path, in particular when closing
  the source connection returns an error). \<open>Close\<close> returns as soon as closing the source
  connection reports an error and never closes the target connection: after the call
  handle 1, the target connection, is still live.
\<close>

theorem Close_leaves_target_open:
  "NewSQLiteDriver noConnections exampleConfig =
     (\<lparr>live = [1, 0], fresh = 2\<rparr>,
      Inr \<lparr>SourceDatabaseConnection = 0, TargetDatabaseConnection = 1\<rparr>)
   \<and> Close closeFails \<lparr>live = [1, 0], fresh = 2\<rparr>
        \<lparr>SourceDatabaseConnection = 0, TargetDatabaseConnection = 1\<rparr> =
     (\<lparr>live = [1], fresh = 2\<rparr>, Some (DriverError ''database is locked''))"
  by code_simp

end
